theory Spec2Isabelle
  imports Complex_Main "HOL-Library.Sublist"
begin

chapter \<open>The QualityMax GitHub action\<close>

text \<open>
  A model of the action's entry file (\<^verbatim>\<open>getInputs\<close>, \<^verbatim>\<open>postPrComment\<close>,
  \<^verbatim>\<open>runTestsLocally\<close> and \<^verbatim>\<open>run\<close>) over the types of \<^verbatim>\<open>types.d.ts\<close> and the client
  declared in \<^verbatim>\<open>api.d.ts\<close>. Pure computations are functions; everything the action does
  to the file system, to processes, to the CI host and to the remote service is an event
  of a trace, and what the world answers is an environment that the theorems range over.
  Line numbers are those of the entry file.
\<close>

section \<open>Data model\<close>

text \<open>
  The types of \<^verbatim>\<open>types.d.ts\<close>. A JavaScript number that counts tests is an \<open>int\<close>
  (the source subtracts counts and clamps a negative difference, which \<open>nat\<close> would hide);
  a duration is a \<open>rat\<close>, so the source's \<^verbatim>\<open>/\<close> on doubles is read as exact division.
  An optional field is an \<open>option\<close>. Field names are the source's, prefixed where two
  interfaces share a name or the name is a constant of HOL (\<open>id\<close>).
\<close>

datatype TestRunStatus = StQueued | StRunning | StCompleted | StFailed | StCancelled | StTimeout

datatype TestResult = Passed | Failed | Skipped | Error

record IndividualTestResult =
  test_id :: int
  test_name :: string
  test_status :: TestResult
  test_duration_seconds :: rat
  error_message :: "string option"

record TestExecutionResults =
  execution_id :: string
  status :: TestRunStatus
  result :: TestResult
  total_tests :: int
  passed_tests :: int
  failed_tests :: int
  skipped_tests :: int
  duration_seconds :: rat
  started_at :: int
  completed_at :: int
  results_browser :: string
  report_url :: string
  tests :: "IndividualTestResult list"
  summary_markdown :: "string option"

text \<open>
  \<open>started_at\<close> and \<open>completed_at\<close> hold the clock reading in milliseconds; their
  rendering by \<^verbatim>\<open>toISOString\<close> is not modelled.
\<close>

text \<open>
  Modelled from the spec: the interface \<^verbatim>\<open>EmbeddedScript\<close> is imported from
  \<^verbatim>\<open>./types\<close> but is not in \<^verbatim>\<open>types.d.ts\<close>; the spec gives it an id, a name and
  executable source text, and \<^verbatim>\<open>runTestsLocally\<close> reads \<^verbatim>\<open>script.id\<close>,
  \<^verbatim>\<open>script.name\<close> and \<^verbatim>\<open>script.code\<close>.
\<close>

record EmbeddedScript =
  script_id :: int
  script_name :: string
  script_code :: string

record ActionInputs =
  apiKey :: string
  projectId :: string
  projectName :: string
  testSuite :: string
  testIds :: "int option list option"
  baseUrl :: "string option"
  browser :: string
  headless :: bool
  timeoutMinutes :: "int option"
  failOnTestFailure :: bool
  postPrComment :: bool
  mode :: string
  autoDiscover :: bool
  maxSeedTests :: "int option"
  seedDescriptions :: "string list option"

text \<open>A number read by \<^verbatim>\<open>parseInt\<close> is an \<open>int option\<close>: \<open>None\<close> is \<^verbatim>\<open>NaN\<close>.\<close>

record GitHubContext =
  repository :: string
  sha :: string
  ref :: string
  run_id :: string
  run_number :: int
  pr_number :: "int option"
  actor :: string
  event_name :: string

record TriggerTestsRequest =
  req_project_id :: string
  req_test_suite :: string
  req_test_ids :: "int option list option"
  req_base_url :: "string option"
  req_browser :: string
  req_headless :: bool
  req_timeout_minutes :: "int option"
  req_github_context :: GitHubContext

text \<open>
  Modelled from the spec: \<^verbatim>\<open>run\<close> reads \<^verbatim>\<open>run_locally\<close>, \<^verbatim>\<open>scripts\<close> and
  \<^verbatim>\<open>test_files\<close> of the trigger response, which \<^verbatim>\<open>types.d.ts\<close> does not declare;
  the spec's TriggerResponse has a run-location decision, optional embedded scripts and
  optional repository test-file paths. The fields that \<^verbatim>\<open>run\<close> only logs
  (message, estimated duration, test command, URLs) are left out.
\<close>

record TriggerTestsResponse =
  resp_execution_id :: string
  run_locally :: bool
  scripts :: "EmbeddedScript list option"
  test_files :: "string list option"

record SeedTestsResponse =
  tests_created :: int
  seed_skipped :: int
  seed_message :: string

subsection \<open>The JSON report of the test runner\<close>

text \<open>
  The report is read back as \<^verbatim>\<open>suites[].specs[].tests[].results[]\<close>. Every property
  the source guards with \<^verbatim>\<open>||\<close> or \<^verbatim>\<open>?.\<close> is an \<open>option\<close>. An entry of
  \<^verbatim>\<open>suites\<close> or \<^verbatim>\<open>specs\<close> is an \<open>option\<close> too: \<open>None\<close> is a JSON \<^verbatim>\<open>null\<close>,
  on which the property read of line 268 or 271 throws a TypeError inside the
  \<^verbatim>\<open>try\<close> of line 263.
\<close>

record pw_error =
  message :: "string option"

record pw_attempt =
  attempt_duration :: "rat option"
  attempt_error :: "pw_error option"

record pw_test =
  pw_results :: "pw_attempt list option"

record pw_spec =
  spec_ok :: bool
  spec_title :: "string option"
  spec_tests :: "pw_test list option"

record pw_suite =
  suite_file :: "string option"
  suite_specs :: "pw_spec option list option"

record raw_report =
  suites :: "pw_suite option list option"

text \<open>
  What line 262 to 264 find on disk: no file, a file that \<^verbatim>\<open>readFileSync\<close> or
  \<^verbatim>\<open>JSON.parse\<close> rejects (or that parses to \<^verbatim>\<open>null\<close>, on which \<^verbatim>\<open>raw.suites\<close>
  throws), or a parsed report.
\<close>

datatype results_file = NoFile | Unparsable | Parsed raw_report

datatype js_error = JsError string | NonError

text \<open>
  \<open>JsError m\<close> is a thrown \<^verbatim>\<open>Error\<close> (or subclass) with message \<open>m\<close>; \<open>NonError\<close> is a
  thrown value that is not an \<^verbatim>\<open>Error\<close>.
\<close>

section \<open>Strings\<close>

text \<open>
  A JavaScript string is modelled as a \<open>string\<close>: the code units below 256. The classes
  \<^verbatim>\<open>\w\<close> and \<^verbatim>\<open>\s\<close> of a regular expression without the \<^verbatim>\<open>u\<close> flag are, on these
  code units, the ASCII letters, digits and underscore, and the characters 9 to 13, 32
  and 160.
\<close>

definition is_word :: "char \<Rightarrow> bool" where
  "is_word c \<longleftrightarrow>
     c \<in> set ''abcdefghijklmnopqrstuvwxyzABCDEFGHIJKLMNOPQRSTUVWXYZ0123456789_''"

definition is_space :: "char \<Rightarrow> bool" where
  "is_space c \<longleftrightarrow>
     c \<in> set [CHR 0x09, CHR 0x0A, CHR 0x0B, CHR 0x0C, CHR 0x0D, CHR 0x20, CHR 0xA0]"

definition is_quote :: "char \<Rightarrow> bool" where
  "is_quote c \<longleftrightarrow> c = CHR 0x27 \<or> c = CHR 0x22"

text \<open>
  A number spliced into a template literal, or rendered by \<^verbatim>\<open>toString\<close>: for an
  integer (below \<open>10\<^sup>2\<^sup>1\<close> in size) its decimal digits, with a minus sign when negative.
\<close>

definition digit_char :: "nat \<Rightarrow> char" where
  "digit_char d = ''0123456789'' ! d"

fun decimal :: "nat \<Rightarrow> string" where
  "decimal n = (if n < 10 then [] else decimal (n div 10)) @ [digit_char (n mod 10)]"

declare decimal.simps [simp del]

definition toString_int :: "int \<Rightarrow> string" where
  "toString_int i = (if 0 \<le> i then decimal (nat i) else CHR ''-'' # decimal (nat (- i)))"

text \<open>
  \<^verbatim>\<open>path.basename\<close> of Node (POSIX): trailing slashes are dropped, then the part after
  the last slash is returned.
\<close>

definition basename :: "string \<Rightarrow> string" where
  "basename p =
     (let q = dropWhile (\<lambda>c. c = CHR ''/'') (rev p)
      in rev (takeWhile (\<lambda>c. c \<noteq> CHR ''/'') q))"

section \<open>The script sanitizer (lines 214 to 219)\<close>

text \<open>
  \<open>match_lit l s\<close> matches the literal \<open>l\<close> at the start of \<open>s\<close> and returns the rest.
\<close>

definition match_lit :: "string \<Rightarrow> string \<Rightarrow> string option" where
  "match_lit l s = (if take (length l) s = l then Some (drop (length l) s) else None)"

text \<open>\<^verbatim>\<open>\s+\<close>: one or more white-space characters, as many as there are.\<close>

definition match_spaces1 :: "string \<Rightarrow> string option" where
  "match_spaces1 s =
     (case s of [] \<Rightarrow> None
      | c # cs \<Rightarrow> if is_space c then Some (dropWhile is_space cs) else None)"

definition match_quote :: "string \<Rightarrow> string option" where
  "match_quote s = (case s of [] \<Rightarrow> None | c # cs \<Rightarrow> if is_quote c then Some cs else None)"

text \<open>
  The first pattern, \<^verbatim>\<open>/import\s+type\s+\{[^}]*\}\s+from\s+['"][^'"]*['"];?\s*/\<close>,
  tried at the start of \<open>s\<close>; the result is the text after the match. Every greedy
  repetition of the pattern is followed by something its own characters cannot start
  (\<^verbatim>\<open>\s+\<close> by a letter or a brace, \<^verbatim>\<open>[^}]*\<close> by the closing brace, \<^verbatim>\<open>[^'"]*\<close> by a
  quote), or by nothing that can fail (\<^verbatim>\<open>;?\s*\<close>), so the backtracking matcher of
  JavaScript finds the longest run at each repetition or no match at all.
\<close>

definition match_import :: "string \<Rightarrow> string option" where
  "match_import s =
     Option.bind (match_lit ''import'' s) (\<lambda>s1.
     Option.bind (match_spaces1 s1) (\<lambda>s2.
     Option.bind (match_lit ''type'' s2) (\<lambda>s3.
     Option.bind (match_spaces1 s3) (\<lambda>s4.
     Option.bind (match_lit ''{'' s4) (\<lambda>s5.
     Option.bind (match_lit ''}'' (dropWhile (\<lambda>c. c \<noteq> CHR ''}'') s5)) (\<lambda>s6.
     Option.bind (match_spaces1 s6) (\<lambda>s7.
     Option.bind (match_lit ''from'' s7) (\<lambda>s8.
     Option.bind (match_spaces1 s8) (\<lambda>s9.
     Option.bind (match_quote s9) (\<lambda>s10.
     Option.bind (match_quote (dropWhile (\<lambda>c. \<not> is_quote c) s10)) (\<lambda>s11.
     Some (dropWhile is_space
             (case match_lit '';'' s11 of None \<Rightarrow> s11 | Some s12 \<Rightarrow> s12)))))))))))))"

text \<open>
  One alternative of the second pattern followed by \<^verbatim>\<open>\b\<close>: the alternative ends in a
  letter, so the word boundary holds when the text ends there or goes on with a character
  that is not of \<^verbatim>\<open>\w\<close>.
\<close>

definition match_type_name :: "string \<Rightarrow> string \<Rightarrow> string option" where
  "match_type_name a s =
     (case match_lit a s of
        None \<Rightarrow> None
      | Some r \<Rightarrow> (case r of [] \<Rightarrow> Some r | c # _ \<Rightarrow> if is_word c then None else Some r))"

fun match_alternatives :: "string list \<Rightarrow> string \<Rightarrow> string option" where
  "match_alternatives [] s = None"
| "match_alternatives (a # as) s =
     (case match_type_name a s of Some r \<Rightarrow> Some r | None \<Rightarrow> match_alternatives as s)"

definition type_names :: "string list" where
  "type_names =
     [''Page'', ''BrowserContext'', ''Browser'', ''Locator'', ''FrameLocator'',
      ''APIRequestContext'']"

text \<open>
  The second pattern,
  \<^verbatim>\<open>/(\w+)\s*:\s*(?:Page|BrowserContext|Browser|Locator|FrameLocator|APIRequestContext)\b/\<close>,
  tried at the start of \<open>s\<close>; the result is the captured group and the text after the
  match. A shorter \<^verbatim>\<open>\w+\<close> would be followed by a character of \<^verbatim>\<open>\w\<close>, which neither
  \<^verbatim>\<open>\s*\<close> nor the colon matches, so only the longest run can lead to a match.
\<close>

definition match_annotation :: "string \<Rightarrow> (string \<times> string) option" where
  "match_annotation s =
     (let w = takeWhile is_word s
      in if w = [] then None
         else Option.bind (match_lit '':'' (dropWhile is_space (dropWhile is_word s))) (\<lambda>s1.
              Option.bind (match_alternatives type_names (dropWhile is_space s1)) (\<lambda>s2.
              Some (w, s2))))"

text \<open>
  \<^verbatim>\<open>String.prototype.replace\<close> with a global pattern: the pattern is tried at each
  position from left to right; where it matches, the replacement is written and the
  search goes on after the match; elsewhere the character is copied. The first argument
  counts the characters of the current match that are still to be skipped (no match of
  either pattern is empty).
\<close>

fun replace_imports :: "nat \<Rightarrow> string \<Rightarrow> string" where
  "replace_imports k [] = []"
| "replace_imports k (c # cs) =
     (if 0 < k then replace_imports (k - 1) cs
      else (case match_import (c # cs) of
              Some r \<Rightarrow> replace_imports (length cs - length r) cs
            | None \<Rightarrow> c # replace_imports 0 cs))"

fun replace_annotations :: "nat \<Rightarrow> string \<Rightarrow> string" where
  "replace_annotations k [] = []"
| "replace_annotations k (c # cs) =
     (if 0 < k then replace_annotations (k - 1) cs
      else (case match_annotation (c # cs) of
              Some (w, r) \<Rightarrow> w @ replace_annotations (length cs - length r) cs
            | None \<Rightarrow> c # replace_annotations 0 cs))"

text \<open>Lines 215 to 219: the text written to the file of one script.\<close>

definition strip_types :: "string \<Rightarrow> string" where
  "strip_types code0 = replace_annotations 0 (replace_imports 0 code0)"

text \<open>Whether a pattern matches somewhere in a text.\<close>

fun has_import :: "string \<Rightarrow> bool" where
  "has_import [] = False"
| "has_import (c # cs) = (match_import (c # cs) \<noteq> None \<or> has_import cs)"

fun has_annotation :: "string \<Rightarrow> bool" where
  "has_annotation [] = False"
| "has_annotation (c # cs) = (match_annotation (c # cs) \<noteq> None \<or> has_annotation cs)"

section \<open>Normalising the outcome of a local run (lines 255 to 314)\<close>

definition safeFileName :: "EmbeddedScript \<Rightarrow> string" where
  "safeFileName script = ''test-'' @ toString_int (script_id script) @ ''.spec.js''"

text \<open>
  The \<^verbatim>\<open>Map\<close> that the loop of line 210 fills: \<^verbatim>\<open>scriptMap.set\<close> for each script in
  order, a later script replacing an earlier one of the same file name. The map is read
  only after the loop, so it is built apart from the file writes of the same loop.
\<close>

definition scriptMap_of :: "EmbeddedScript list \<Rightarrow> (string \<rightharpoonup> EmbeddedScript)" where
  "scriptMap_of scripts0 =
     foldl (\<lambda>m script. m(safeFileName script \<mapsto> script)) Map.empty scripts0"

record parse_state =
  passedTests :: int
  failedTests :: int
  testResults :: "IndividualTestResult list"

text \<open>\<^verbatim>\<open>spec.tests?.[0]?.results?.[0]\<close>\<close>

definition first_attempt :: "pw_spec \<Rightarrow> pw_attempt option" where
  "first_attempt spec =
     (case spec_tests spec of
        None \<Rightarrow> None
      | Some ts \<Rightarrow>
          (case ts of
             [] \<Rightarrow> None
           | t # _ \<Rightarrow>
               (case pw_results t of
                  None \<Rightarrow> None
                | Some rs \<Rightarrow> (case rs of [] \<Rightarrow> None | r # _ \<Rightarrow> Some r))))"

text \<open>\<^verbatim>\<open>a || b\<close> on strings: the empty string and \<^verbatim>\<open>undefined\<close> are falsy.\<close>

definition or_else :: "string option \<Rightarrow> string \<Rightarrow> string" where
  "or_else a b = (case a of None \<Rightarrow> b | Some x \<Rightarrow> if x = [] then b else x)"

text \<open>
  Lines 269 to 273 and 278 to 284: the entry pushed for one spec of a suite. The script
  is looked up by the base name of the suite's file; the status is read from the spec's
  own \<^verbatim>\<open>ok\<close>.
\<close>

definition spec_result ::
  "(string \<rightharpoonup> EmbeddedScript) \<Rightarrow> pw_suite \<Rightarrow> pw_spec \<Rightarrow> IndividualTestResult" where
  "spec_result scriptMap suite spec =
     (let fileName = basename (or_else (suite_file suite) []);
          script = scriptMap fileName;
          testStatus = (if spec_ok spec then Passed else Failed);
          testDuration =
            (case first_attempt spec of
               None \<Rightarrow> 0
             | Some a \<Rightarrow> (case attempt_duration a of None \<Rightarrow> 0 | Some d \<Rightarrow> d)) / 1000;
          errorMsg =
            (case first_attempt spec of
               None \<Rightarrow> None
             | Some a \<Rightarrow> (case attempt_error a of None \<Rightarrow> None | Some e \<Rightarrow> message e))
      in \<lparr>test_id = (case script of None \<Rightarrow> 0 | Some sc \<Rightarrow> script_id sc),
          test_name =
            or_else (map_option script_name script) (or_else (spec_title spec) fileName),
          test_status = testStatus,
          test_duration_seconds = testDuration,
          error_message = errorMsg\<rparr>)"

text \<open>
  The body of the inner loop, lines 269 to 284, for one entry of \<^verbatim>\<open>specs\<close>. A
  \<^verbatim>\<open>null\<close> entry throws at \<^verbatim>\<open>spec.ok\<close> before any variable is changed.
\<close>

definition parse_spec ::
  "(string \<rightharpoonup> EmbeddedScript) \<Rightarrow> pw_suite \<Rightarrow> pw_spec option \<Rightarrow> parse_state
     \<Rightarrow> js_error + parse_state" where
  "parse_spec scriptMap suite entry st =
     (case entry of
        None \<Rightarrow> Inl (JsError ''Cannot read properties of null'')
      | Some spec \<Rightarrow>
          (let entry1 = spec_result scriptMap suite spec;
               st1 = (if test_status entry1 = Passed
                      then st\<lparr>passedTests := passedTests st + 1\<rparr>
                      else st\<lparr>failedTests := failedTests st + 1\<rparr>)
           in Inr (st1\<lparr>testResults := testResults st1 @ [entry1]\<rparr>)))"

text \<open>
  The loops of lines 267 and 268. The second component says whether an entry threw; the
  state reached before the throw is kept, as the \<^verbatim>\<open>catch\<close> of line 287 only logs.
\<close>

fun parse_specs ::
  "(string \<rightharpoonup> EmbeddedScript) \<Rightarrow> pw_suite \<Rightarrow> pw_spec option list \<Rightarrow> parse_state
     \<Rightarrow> parse_state \<times> bool" where
  "parse_specs scriptMap suite [] st = (st, False)"
| "parse_specs scriptMap suite (entry # rest) st =
     (case parse_spec scriptMap suite entry st of
        Inl e \<Rightarrow> (st, True)
      | Inr st1 \<Rightarrow> parse_specs scriptMap suite rest st1)"

fun parse_suites ::
  "(string \<rightharpoonup> EmbeddedScript) \<Rightarrow> pw_suite option list \<Rightarrow> parse_state
     \<Rightarrow> parse_state \<times> bool" where
  "parse_suites scriptMap [] st = (st, False)"
| "parse_suites scriptMap (None # rest) st = (st, True)"
| "parse_suites scriptMap (Some suite # rest) st =
     (case parse_specs scriptMap suite
             (case suite_specs suite of None \<Rightarrow> [] | Some l \<Rightarrow> l) st of
        (st1, True) \<Rightarrow> (st1, True)
      | (st1, False) \<Rightarrow> parse_suites scriptMap rest st1)"

text \<open>Lines 261 to 290.\<close>

definition parse_report ::
  "(string \<rightharpoonup> EmbeddedScript) \<Rightarrow> results_file \<Rightarrow> parse_state \<Rightarrow> parse_state" where
  "parse_report scriptMap rf st =
     (case rf of
        NoFile \<Rightarrow> st
      | Unparsable \<Rightarrow> st
      | Parsed raw \<Rightarrow>
          fst (parse_suites scriptMap (case suites raw of None \<Rightarrow> [] | Some l \<Rightarrow> l) st))"

text \<open>Lines 293 to 308: the classification by exit code.\<close>

definition infer_from_exit_code ::
  "EmbeddedScript list \<Rightarrow> int \<Rightarrow> rat \<Rightarrow> parse_state \<Rightarrow> parse_state" where
  "infer_from_exit_code scripts0 exitCode durationSeconds st =
     (if length (testResults st) = 0 then
        (let totalTests = int (length scripts0);
             st1 = (if exitCode = 0 then st\<lparr>passedTests := totalTests\<rparr>
                    else st\<lparr>failedTests := totalTests\<rparr>)
         in st1\<lparr>testResults := testResults st1 @
              map (\<lambda>script.
                    \<lparr>test_id = script_id script,
                     test_name = script_name script,
                     test_status = (if exitCode = 0 then Passed else Failed),
                     test_duration_seconds = durationSeconds / of_nat (length scripts0),
                     error_message =
                       (if exitCode \<noteq> 0 then Some ''Test execution failed'' else None)\<rparr>)
                  scripts0\<rparr>)
      else st)"

text \<open>Lines 255 to 308 together.\<close>

definition count_tests ::
  "EmbeddedScript list \<Rightarrow> int \<Rightarrow> rat \<Rightarrow> results_file \<Rightarrow> parse_state" where
  "count_tests scripts0 exitCode durationSeconds rf =
     infer_from_exit_code scripts0 exitCode durationSeconds
       (parse_report (scriptMap_of scripts0) rf
          \<lparr>passedTests = 0, failedTests = 0, testResults = []\<rparr>)"

text \<open>Lines 310 and 311.\<close>

definition skipped_of :: "int \<Rightarrow> parse_state \<Rightarrow> int" where
  "skipped_of totalTests st =
     (let skippedTests = totalTests - passedTests st - failedTests st
      in if skippedTests < 0 then 0 else skippedTests)"

text \<open>Lines 313 and 314.\<close>

definition overallResult :: "parse_state \<Rightarrow> TestResult" where
  "overallResult st = (if 0 < passedTests st \<and> failedTests st = 0 then Passed else Failed)"

definition overallStatus :: "TestResult \<Rightarrow> TestRunStatus" where
  "overallStatus r = (if r = Passed then StCompleted else StFailed)"

definition report_url_of :: "string \<Rightarrow> string" where
  "report_url_of executionId0 = ''https://app.qamax.co/results/'' @ executionId0"

text \<open>Lines 326 to 340: the object that \<^verbatim>\<open>runTestsLocally\<close> returns.\<close>

definition local_results ::
  "string \<Rightarrow> string \<Rightarrow> EmbeddedScript list \<Rightarrow> int \<Rightarrow> int \<Rightarrow> int \<Rightarrow> int \<Rightarrow> results_file
     \<Rightarrow> TestExecutionResults" where
  "local_results executionId0 browser0 scripts0 exitCode startTime endTime completedTime rf =
     (let durationSeconds = of_int (endTime - startTime) / 1000;
          totalTests = int (length scripts0);
          st = count_tests scripts0 exitCode durationSeconds rf
      in \<lparr>execution_id = executionId0,
          status = overallStatus (overallResult st),
          result = overallResult st,
          total_tests = totalTests,
          passed_tests = passedTests st,
          failed_tests = failedTests st,
          skipped_tests = skipped_of totalTests st,
          duration_seconds = durationSeconds,
          started_at = startTime,
          completed_at = completedTime,
          results_browser = browser0,
          report_url = report_url_of executionId0,
          tests = testResults st,
          summary_markdown = None\<rparr>)"

text \<open>Lines 523 to 537 of \<^verbatim>\<open>run\<close>: the result of a run of repository test files.\<close>

definition repo_results ::
  "string \<Rightarrow> string \<Rightarrow> string list \<Rightarrow> int \<Rightarrow> int \<Rightarrow> int \<Rightarrow> int \<Rightarrow> TestExecutionResults" where
  "repo_results executionId0 browser0 files exitCode startTime endTime completedTime =
     \<lparr>execution_id = executionId0,
      status = (if exitCode = 0 then StCompleted else StFailed),
      result = (if exitCode = 0 then Passed else Failed),
      total_tests = int (length files),
      passed_tests = (if exitCode = 0 then int (length files) else 0),
      failed_tests = (if exitCode \<noteq> 0 then int (length files) else 0),
      skipped_tests = 0,
      duration_seconds = of_int (endTime - startTime) / 1000,
      started_at = startTime,
      completed_at = completedTime,
      results_browser = browser0,
      report_url = report_url_of executionId0,
      tests = [],
      summary_markdown = None\<rparr>"

text \<open>Lines 565 to 570 of \<^verbatim>\<open>run\<close>.\<close>

definition executionFailed :: "TestExecutionResults \<Rightarrow> bool" where
  "executionFailed results \<longleftrightarrow>
     result results = Failed \<or> status results = StFailed \<or> status results = StCancelled \<or>
     status results = StTimeout \<or> (passed_tests results = 0 \<and> 0 < total_tests results)"

section \<open>Effects\<close>

text \<open>
  What the action does to the world is recorded as a list of events, in order. Calls of
  \<^verbatim>\<open>core.info\<close>, \<^verbatim>\<open>core.debug\<close> and \<^verbatim>\<open>core.warning\<close> are left out: they return
  nothing and change no variable. The eight \<^verbatim>\<open>core.setOutput\<close> calls of
  \<^verbatim>\<open>setOutputs\<close> are one event, and so is the chain of \<^verbatim>\<open>writeJobSummary\<close>; the body
  of a pull-request comment is not modelled.
\<close>

datatype event =
    Mkdtemp
  | Mkdir string
  | WriteFile string string
  | Exec string "string list"
  | RmSync string
  | ValidateApiKey
  | GetProjects
  | ResolveProject string
  | SeedTests string
  | TriggerTests TriggerTestsRequest
  | WaitForCompletion string "int option"
  | ReportResults string TestResult int int int
  | CancelExecution string
  | SetOutput string string
  | SetOutputs TestExecutionResults
  | WriteJobSummary TestExecutionResults
  | CreateComment int
  | SetFailed string

text \<open>
  The state of a run: the events so far and the two variables that \<^verbatim>\<open>run\<close> declares
  outside its \<^verbatim>\<open>try\<close> (lines 374 and 375) and reads in its \<^verbatim>\<open>catch\<close>.
\<close>

record run_state =
  trace :: "event list"
  executionId :: "string option"
  client :: "string option"

type_synonym 'a action = "run_state \<Rightarrow> run_state \<times> (js_error + 'a)"

definition ret :: "'a \<Rightarrow> 'a action" where
  "ret x = (\<lambda>s. (s, Inr x))"

definition throw :: "js_error \<Rightarrow> 'a action" where
  "throw e = (\<lambda>s. (s, Inl e))"

definition bind :: "'a action \<Rightarrow> ('a \<Rightarrow> 'b action) \<Rightarrow> 'b action" where
  "bind m f = (\<lambda>s. case m s of (s1, Inl e) \<Rightarrow> (s1, Inl e) | (s1, Inr x) \<Rightarrow> f x s1)"

definition try_catch :: "'a action \<Rightarrow> (js_error \<Rightarrow> 'a action) \<Rightarrow> 'a action" where
  "try_catch m h = (\<lambda>s. case m s of (s1, Inl e) \<Rightarrow> h e s1 | (s1, Inr x) \<Rightarrow> (s1, Inr x))"

definition emit :: "event \<Rightarrow> unit action" where
  "emit ev = (\<lambda>s. (s\<lparr>trace := trace s @ [ev]\<rparr>, Inr ()))"

text \<open>
  A call that leaves the program: the event is recorded, and the environment says whether
  the call throws or what it returns.
\<close>

definition call :: "event \<Rightarrow> js_error + 'a \<Rightarrow> 'a action" where
  "call ev outcome = bind (emit ev) (\<lambda>_. case outcome of Inl e \<Rightarrow> throw e | Inr x \<Rightarrow> ret x)"

text \<open>
  \<^verbatim>\<open>exec\<close> of \<^verbatim>\<open>@actions/exec\<close>: it resolves to the exit code of the process, and
  rejects when the process cannot be run or, unless \<^verbatim>\<open>ignoreReturnCode\<close> is set, when
  the exit code is not zero (the message names the command in place of the tool's path).
\<close>

definition exec :: "string \<Rightarrow> string list \<Rightarrow> bool \<Rightarrow> js_error + int \<Rightarrow> int action" where
  "exec cmd args ignoreReturnCode outcome =
     call (Exec cmd args)
       (case outcome of
          Inl e \<Rightarrow> Inl e
        | Inr rc \<Rightarrow>
            if rc \<noteq> 0 \<and> \<not> ignoreReturnCode
            then Inl (JsError (''The process '' @ cmd @ '' failed with exit code '' @
                               toString_int rc))
            else Inr rc)"

section \<open>\<^verbatim>\<open>runTestsLocally\<close> (lines 175 to 343)\<close>

text \<open>
  Modelled from the spec: \<^verbatim>\<open>client.reportResults\<close> is called at line 324 but is not
  declared in \<^verbatim>\<open>api.d.ts\<close>; the spec lists it as
  \<^verbatim>\<open>reportResults(id, verdict, passed, failed, total)\<close>, a network call that may fail.
  It is the event \<open>ReportResults\<close> with the outcome \<open>reportResults_out\<close> below.
\<close>

text \<open>
  The environment of a local run: the outcome of each call that leaves the program, the
  three clock readings, and the report file found after the test process has ended.
\<close>

record local_env =
  mkdtemp_out :: "js_error + string"
  mkdir_out :: "js_error + unit"
  writeFile_out :: "string \<Rightarrow> js_error + unit"
  npm_install_out :: "js_error + int"
  browser_install_out :: "js_error + int"
  playwright_test_out :: "js_error + int"
  startTime :: int
  endTime :: int
  completedTime :: int
  results_json :: results_file
  rmSync_out :: "js_error + unit"
  reportResults_out :: "js_error + unit"

definition path_join :: "string \<Rightarrow> string \<Rightarrow> string" where
  "path_join dir0 leaf = dir0 @ ''/'' @ leaf"

text \<open>
  The template of lines 191 to 205, cut where \<^verbatim>\<open>inputs.browser\<close> is spliced in.
\<close>

definition config_head :: string where
  "config_head =
     ''\<newline>const { defineConfig } = require('@playwright/test');\<newline>'' @
     ''module.exports = defineConfig({\<newline>'' @
     ''  testDir: './tests',\<newline>'' @
     ''  timeout: 60000,\<newline>'' @
     ''  retries: 0,\<newline>'' @
     ''  reporter: [['json', { outputFile: 'results.json' }], ['list']],\<newline>'' @
     ''  use: {\<newline>'' @
     ''    headless: true,\<newline>'' @
     ''    viewport: { width: 1280, height: 720 },\<newline>'' @
     ''    screenshot: 'only-on-failure',\<newline>'' @
     ''  },\<newline>'' @
     ''  projects: [{ name: '' @ [CHR 0x27]"

definition browserName :: "string \<Rightarrow> string" where
  "browserName b =
     (if b = ''chromium'' then ''chromium'' else if b = ''firefox'' then ''firefox''
      else ''webkit'')"

definition configContent :: "ActionInputs \<Rightarrow> string" where
  "configContent inputs =
     config_head @ browser inputs @ [CHR 0x27] @ '', use: { browserName: '' @ [CHR 0x27] @
     browserName (browser inputs) @ [CHR 0x27] @ '' } }],\<newline>});\<newline>''"

definition packageJson :: string where
  "packageJson = ''{\"dependencies\":{\"@playwright/test\":\"latest\"}}''"

definition writeFileSync :: "local_env \<Rightarrow> string \<Rightarrow> string \<Rightarrow> unit action" where
  "writeFileSync env path0 content = call (WriteFile path0 content) (writeFile_out env path0)"

text \<open>The file writes of the loop of lines 210 to 224.\<close>

fun write_scripts :: "local_env \<Rightarrow> string \<Rightarrow> EmbeddedScript list \<Rightarrow> unit action" where
  "write_scripts env testDir [] = ret ()"
| "write_scripts env testDir (script # rest) =
     bind (writeFileSync env (path_join testDir (safeFileName script))
             (strip_types (script_code script)))
       (\<lambda>_. write_scripts env testDir rest)"

text \<open>
  Lines 185 to 236: the temporary directory, the configuration, one file per script, the
  manifest, and the two installations. Nothing here is inside a \<^verbatim>\<open>try\<close>: a call that
  throws ends \<^verbatim>\<open>runTestsLocally\<close> at once. The result is the directory.
\<close>

definition provision_sandbox ::
  "EmbeddedScript list \<Rightarrow> ActionInputs \<Rightarrow> local_env \<Rightarrow> string action" where
  "provision_sandbox scripts0 inputs env =
     bind (call Mkdtemp (mkdtemp_out env)) (\<lambda>tmpDir.
     bind (call (Mkdir (path_join tmpDir ''tests'')) (mkdir_out env)) (\<lambda>_.
     bind (writeFileSync env (path_join tmpDir ''playwright.config.js'')
             (configContent inputs)) (\<lambda>_.
     bind (write_scripts env (path_join tmpDir ''tests'') scripts0) (\<lambda>_.
     bind (writeFileSync env (path_join tmpDir ''package.json'') packageJson) (\<lambda>_.
     bind (exec ''npm'' [''install'', ''--no-audit'', ''--no-fund''] False
             (npm_install_out env)) (\<lambda>_.
     bind (exec ''npx'' [''playwright'', ''install'', ''--with-deps'', browser inputs] False
             (browser_install_out env)) (\<lambda>_.
     ret tmpDir)))))))"

text \<open>
  Lines 238 to 342: the test process, the result, the removal of the directory and the
  report to the service.
\<close>

definition execute_and_report ::
  "string \<Rightarrow> EmbeddedScript list \<Rightarrow> ActionInputs \<Rightarrow> local_env \<Rightarrow> string
     \<Rightarrow> TestExecutionResults action" where
  "execute_and_report executionId0 scripts0 inputs env tmpDir =
     bind (try_catch
             (exec ''npx'' [''playwright'', ''test'', ''--config=playwright.config.js''] True
                (playwright_test_out env))
             (\<lambda>_. ret 1)) (\<lambda>exitCode.
     let results = local_results executionId0 (browser inputs) scripts0 exitCode
                     (startTime env) (endTime env) (completedTime env) (results_json env)
     in
     bind (try_catch (call (RmSync tmpDir) (rmSync_out env)) (\<lambda>_. ret ())) (\<lambda>_.
     bind (call (ReportResults executionId0 (result results) (passed_tests results)
                   (failed_tests results) (total_tests results))
             (reportResults_out env)) (\<lambda>_.
     ret results)))"

definition runTestsLocally ::
  "TriggerTestsResponse \<Rightarrow> ActionInputs \<Rightarrow> local_env \<Rightarrow> TestExecutionResults action" where
  "runTestsLocally triggerResponse inputs env =
     (let scripts0 = (case scripts triggerResponse of None \<Rightarrow> [] | Some l \<Rightarrow> l);
          executionId0 = resp_execution_id triggerResponse
      in bind (provision_sandbox scripts0 inputs env)
           (execute_and_report executionId0 scripts0 inputs env))"

section \<open>\<^verbatim>\<open>run\<close> (lines 373 to 596)\<close>

subsection \<open>\<^verbatim>\<open>getInputs\<close> (lines 28 to 53)\<close>

fun split_on :: "char \<Rightarrow> string \<Rightarrow> string list" where
  "split_on sep [] = [[]]"
| "split_on sep (c # cs) =
     (if c = sep then [] # split_on sep cs
      else (case split_on sep cs of [] \<Rightarrow> [[c]] | x # xs \<Rightarrow> (c # x) # xs))"

definition trim :: "string \<Rightarrow> string" where
  "trim s = rev (dropWhile is_space (rev (dropWhile is_space s)))"

definition is_digit :: "char \<Rightarrow> bool" where
  "is_digit c \<longleftrightarrow> c \<in> set ''0123456789''"

text \<open>
  \<^verbatim>\<open>parseInt(s, 10)\<close>: leading white space, an optional sign, then the longest run of
  digits; \<^verbatim>\<open>NaN\<close> when there is no digit.
\<close>

definition parseInt10 :: "string \<Rightarrow> int option" where
  "parseInt10 s =
     (let s1 = dropWhile is_space s;
          signed = (case s1 of [] \<Rightarrow> False | c # _ \<Rightarrow> c = CHR ''-'' \<or> c = CHR ''+'');
          negative = (case s1 of [] \<Rightarrow> False | c # _ \<Rightarrow> c = CHR ''-'');
          ds = takeWhile is_digit (if signed then tl s1 else s1);
          n = foldl (\<lambda>a d. 10 * a + (int (of_char d) - 48)) 0 ds
      in if ds = [] then None else Some (if negative then - n else n))"

definition or_default :: "string \<Rightarrow> string \<Rightarrow> string" where
  "or_default a b = (if a = [] then b else a)"

text \<open>
  The argument is \<^verbatim>\<open>core.getInput\<close>: the value of an input, the empty string when the
  workflow does not set it. With \<^verbatim>\<open>required: true\<close> an empty value throws.
\<close>

definition getInputs :: "(string \<Rightarrow> string) \<Rightarrow> js_error + ActionInputs" where
  "getInputs getInput =
     (let testIdsInput = getInput ''test-ids'';
          seedDescInput = getInput ''seed-descriptions''
      in if getInput ''api-key'' = []
         then Inl (JsError ''Input required and not supplied: api-key'')
         else Inr
           \<lparr>apiKey = getInput ''api-key'',
            projectId = or_default (getInput ''project-id'') [],
            projectName = or_default (getInput ''project-name'') [],
            testSuite = or_default (getInput ''test-suite'') ''all'',
            testIds =
              (if testIdsInput \<noteq> []
               then Some (map (\<lambda>i. parseInt10 (trim i)) (split_on CHR '','' testIdsInput))
               else None),
            baseUrl = (if getInput ''base-url'' = [] then None else Some (getInput ''base-url'')),
            browser = or_default (getInput ''browser'') ''chromium'',
            headless = (getInput ''headless'' \<noteq> ''false''),
            timeoutMinutes = parseInt10 (or_default (getInput ''timeout-minutes'') ''30''),
            failOnTestFailure = (getInput ''fail-on-test-failure'' \<noteq> ''false''),
            postPrComment = (getInput ''post-pr-comment'' \<noteq> ''false''),
            mode = or_default (getInput ''mode'') ''run'',
            autoDiscover = (getInput ''auto-discover'' \<noteq> ''false''),
            maxSeedTests = parseInt10 (or_default (getInput ''max-seed-tests'') ''3''),
            seedDescriptions =
              (if seedDescInput \<noteq> []
               then Some (filter (\<lambda>d. d \<noteq> [])
                            (map trim (split_on CHR 0x0A seedDescInput)))
               else None)\<rparr>)"

subsection \<open>The environment of \<^verbatim>\<open>run\<close>\<close>

text \<open>
  What the workflow, the CI host and the remote service answer: the inputs, the GitHub
  context (reading it throws when the repository is not known), the token, and the
  outcome of each call of the client. A project is a pair of its id and its name.
\<close>

record run_env =
  getInput :: "string \<Rightarrow> string"
  ghContext_out :: "js_error + GitHubContext"
  github_token :: "string option"
  validateApiKey_out :: "js_error + bool"
  getProjects_out :: "js_error + (string \<times> string) list"
  resolveProject_out :: "js_error + string option"
  seedTests_out :: "js_error + SeedTestsResponse"
  triggerTests_out :: "js_error + TriggerTestsResponse"
  local_run :: local_env
  repo_exec_out :: "js_error + int"
  repo_startTime :: int
  repo_endTime :: int
  repo_completedTime :: int
  waitForCompletion_out :: "js_error + TestExecutionResults"
  summary_out :: "js_error + unit"
  createComment_out :: "js_error + unit"
  cancelExecution_out :: "js_error + unit"

subsection \<open>Resolving the project (lines 399 to 445)\<close>

text \<open>\<^verbatim>\<open>toLowerCase\<close> on the ASCII letters.\<close>

definition toLowerCase :: "string \<Rightarrow> string" where
  "toLowerCase s =
     map (\<lambda>c. if c \<in> set ''ABCDEFGHIJKLMNOPQRSTUVWXYZ''
               then char_of (of_char c + (32::nat)) else c) s"

fun join_comma :: "string list \<Rightarrow> string" where
  "join_comma [] = []"
| "join_comma [x] = x"
| "join_comma (x # y # ys) = x @ '', '' @ join_comma (y # ys)"

definition resolve_project :: "run_env \<Rightarrow> ActionInputs \<Rightarrow> GitHubContext \<Rightarrow> string action" where
  "resolve_project env inputs gh =
     (if projectId inputs \<noteq> [] then ret (projectId inputs)
      else if projectName inputs \<noteq> [] then
        bind (call GetProjects (getProjects_out env)) (\<lambda>projects.
          case List.find (\<lambda>p. toLowerCase (snd p) = toLowerCase (projectName inputs))
                 projects of
            Some found \<Rightarrow> ret (fst found)
          | None \<Rightarrow>
              bind (call (ResolveProject (repository gh)) (resolveProject_out env))
                (\<lambda>fallback.
                  if or_else fallback [] \<noteq> [] then ret (or_else fallback [])
                  else throw (JsError
                    (''Project \"'' @ projectName inputs @
                     ''\" not found. Available projects: '' @
                     or_default (join_comma (map snd projects)) ''none'' @
                     ''. Tip: use the exact project name from QualityMax, '' @
                     ''or link the repository to your project.''))))
      else
        bind (call (ResolveProject (repository gh)) (resolveProject_out env)) (\<lambda>detected.
          if or_else detected [] = []
          then throw (JsError
                 (''Could not auto-detect project. Provide project-id or project-name '' @
                  ''input, or link your repository in QualityMax project settings.''))
          else ret (or_else detected [])))"

subsection \<open>Seed mode (lines 448 to 476)\<close>

definition seed_mode :: "run_env \<Rightarrow> string \<Rightarrow> unit action" where
  "seed_mode env resolvedProjectId =
     bind (call (SeedTests resolvedProjectId) (seedTests_out env)) (\<lambda>seedResponse.
     bind (emit (SetOutput ''tests-created'' (toString_int (tests_created seedResponse))))
       (\<lambda>_.
     bind (emit (SetOutput ''tests-skipped'' (toString_int (seed_skipped seedResponse))))
       (\<lambda>_.
     bind (emit (SetOutput ''seed-message'' (seed_message seedResponse))) (\<lambda>_.
     if tests_created seedResponse = 0 \<and> seed_skipped seedResponse = 0
     then emit (SetFailed (seed_message seedResponse))
     else ret ()))))"

subsection \<open>Obtaining the results (lines 503 to 542)\<close>

definition repo_tests ::
  "run_env \<Rightarrow> ActionInputs \<Rightarrow> string \<Rightarrow> string list \<Rightarrow> TestExecutionResults action" where
  "repo_tests env inputs executionId0 files =
     bind (try_catch
             (exec ''npx'' ([''playwright'', ''test''] @ files) True (repo_exec_out env))
             (\<lambda>_. ret 1)) (\<lambda>exitCode.
     ret (repo_results executionId0 (browser inputs) files exitCode
            (repo_startTime env) (repo_endTime env) (repo_completedTime env)))"

definition obtain_results ::
  "run_env \<Rightarrow> ActionInputs \<Rightarrow> TriggerTestsResponse \<Rightarrow> TestExecutionResults action" where
  "obtain_results env inputs triggerResponse =
     (if run_locally triggerResponse \<and>
         (case scripts triggerResponse of None \<Rightarrow> False | Some l \<Rightarrow> 0 < length l)
      then runTestsLocally triggerResponse inputs (local_run env)
      else if run_locally triggerResponse \<and> test_files triggerResponse \<noteq> None
      then repo_tests env inputs (resp_execution_id triggerResponse)
             (case test_files triggerResponse of None \<Rightarrow> [] | Some l \<Rightarrow> l)
      else call (WaitForCompletion (resp_execution_id triggerResponse)
                   (map_option (\<lambda>m. m * 60 * 1000) (timeoutMinutes inputs)))
             (waitForCompletion_out env))"

subsection \<open>\<^verbatim>\<open>postPrComment\<close> (lines 90 to 132)\<close>

definition postPrComment_action :: "run_env \<Rightarrow> GitHubContext \<Rightarrow> unit action" where
  "postPrComment_action env gh =
     (case pr_number gh of
        None \<Rightarrow> ret ()
      | Some prNumber \<Rightarrow>
          if or_else (github_token env) [] = [] then ret ()
          else try_catch (call (CreateComment prNumber) (createComment_out env))
                 (\<lambda>_. ret ()))"

subsection \<open>The exit signal (lines 564 to 579)\<close>

definition failure_message :: "TestExecutionResults \<Rightarrow> string" where
  "failure_message results =
     toString_int (failed_tests results) @ '' of '' @ toString_int (total_tests results) @
     '' test(s) failed. View report: '' @ report_url results"

definition signal_verdict :: "TestExecutionResults \<Rightarrow> ActionInputs \<Rightarrow> unit action" where
  "signal_verdict results inputs =
     (if executionFailed results \<and> failOnTestFailure inputs
      then emit (SetFailed (failure_message results))
      else ret ())"

subsection \<open>The body of the \<^verbatim>\<open>try\<close> and the \<^verbatim>\<open>catch\<close>\<close>

definition set_client :: "string \<Rightarrow> unit action" where
  "set_client k = (\<lambda>s. (s\<lparr>client := Some k\<rparr>, Inr ()))"

definition set_executionId :: "string \<Rightarrow> unit action" where
  "set_executionId eid = (\<lambda>s. (s\<lparr>executionId := Some eid\<rparr>, Inr ()))"

definition lift_result :: "js_error + 'a \<Rightarrow> 'a action" where
  "lift_result r = (case r of Inl e \<Rightarrow> throw e | Inr x \<Rightarrow> ret x)"

definition trigger_request :: "ActionInputs \<Rightarrow> string \<Rightarrow> GitHubContext \<Rightarrow> TriggerTestsRequest" where
  "trigger_request inputs resolvedProjectId gh =
     \<lparr>req_project_id = resolvedProjectId,
      req_test_suite = testSuite inputs,
      req_test_ids = testIds inputs,
      req_base_url = baseUrl inputs,
      req_browser = browser inputs,
      req_headless = headless inputs,
      req_timeout_minutes = timeoutMinutes inputs,
      req_github_context = gh\<rparr>"

text \<open>Lines 491 to 579: from the trigger on.\<close>

definition run_tests :: "run_env \<Rightarrow> ActionInputs \<Rightarrow> string \<Rightarrow> GitHubContext \<Rightarrow> unit action" where
  "run_tests env inputs resolvedProjectId gh =
     bind (call (TriggerTests (trigger_request inputs resolvedProjectId gh))
             (triggerTests_out env)) (\<lambda>triggerResponse.
     bind (set_executionId (resp_execution_id triggerResponse)) (\<lambda>_.
     bind (obtain_results env inputs triggerResponse) (\<lambda>results.
     bind (emit (SetOutputs results)) (\<lambda>_.
     bind (call (WriteJobSummary results) (summary_out env)) (\<lambda>_.
     bind (if postPrComment inputs then postPrComment_action env gh else ret ()) (\<lambda>_.
     signal_verdict results inputs))))))"

text \<open>Lines 389 to 579: what \<^verbatim>\<open>run\<close> does once the client exists.\<close>

definition run_with_client :: "run_env \<Rightarrow> ActionInputs \<Rightarrow> unit action" where
  "run_with_client env inputs =
     bind (call ValidateApiKey (validateApiKey_out env)) (\<lambda>isValid.
     bind (if \<not> isValid
           then throw (JsError
                  ''Invalid API key. Get your API key from app.qamax.co/settings/api'')
           else ret ()) (\<lambda>_.
     bind (lift_result (ghContext_out env)) (\<lambda>gh.
     bind (resolve_project env inputs gh) (\<lambda>resolvedProjectId.
     if mode inputs = ''seed'' then seed_mode env resolvedProjectId
     else run_tests env inputs resolvedProjectId gh))))"

text \<open>Lines 378 to 579: the body of the \<^verbatim>\<open>try\<close>.\<close>

definition run_body :: "run_env \<Rightarrow> unit action" where
  "run_body env =
     bind (lift_result (getInputs (getInput env))) (\<lambda>inputs.
     bind (set_client (apiKey inputs)) (\<lambda>_.
     run_with_client env inputs))"

text \<open>Lines 580 to 595: the \<^verbatim>\<open>catch\<close>.\<close>

definition on_error :: "run_env \<Rightarrow> js_error \<Rightarrow> unit action" where
  "on_error env err =
     (\<lambda>s. bind
             (case executionId s of
                None \<Rightarrow> ret ()
              | Some eid \<Rightarrow>
                  if eid \<noteq> [] \<and> client s \<noteq> None
                  then try_catch (call (CancelExecution eid) (cancelExecution_out env))
                         (\<lambda>_. ret ())
                  else ret ())
             (\<lambda>_. emit (SetFailed (case err of JsError m \<Rightarrow> m
                                    | NonError \<Rightarrow> ''An unexpected error occurred'')))
             s)"

definition run :: "run_env \<Rightarrow> unit action" where
  "run env = try_catch (run_body env) (on_error env)"

definition initial_state :: run_state where
  "initial_state = \<lparr>trace = [], executionId = None, client = None\<rparr>"

section \<open>Reading a trace\<close>

text \<open>
  The calls of one kind in a list of events, in order: the directories removed, the
  results reported, the executions cancelled and the failure messages set.
\<close>

fun removal_of :: "event \<Rightarrow> string option" where
  "removal_of (RmSync p) = Some p"
| "removal_of _ = None"

fun report_of :: "event \<Rightarrow> (string \<times> TestResult \<times> int \<times> int \<times> int) option" where
  "report_of (ReportResults eid verdict p f t) = Some (eid, verdict, p, f, t)"
| "report_of _ = None"

fun cancel_of :: "event \<Rightarrow> string option" where
  "cancel_of (CancelExecution eid) = Some eid"
| "cancel_of _ = None"

fun failure_of :: "event \<Rightarrow> string option" where
  "failure_of (SetFailed m) = Some m"
| "failure_of _ = None"

definition removals :: "event list \<Rightarrow> string list" where
  "removals tr = List.map_filter removal_of tr"

definition reports :: "event list \<Rightarrow> (string \<times> TestResult \<times> int \<times> int \<times> int) list" where
  "reports tr = List.map_filter report_of tr"

definition cancels :: "event list \<Rightarrow> string list" where
  "cancels tr = List.map_filter cancel_of tr"

definition failures :: "event list \<Rightarrow> string list" where
  "failures tr = List.map_filter failure_of tr"



text \<open>
  The exit code that lines 241 to 250 and 513 to 520 end with: the code the process
  returned, or 1 when \<^verbatim>\<open>exec\<close> itself threw.
\<close>

definition exit_code_of :: "js_error + int \<Rightarrow> int" where
  "exit_code_of outcome = (case outcome of Inl e \<Rightarrow> 1 | Inr rc \<Rightarrow> rc)"

text \<open>The message that the \<^verbatim>\<open>catch\<close> of \<^verbatim>\<open>run\<close> sets (lines 590 to 594).\<close>

definition error_text :: "js_error \<Rightarrow> string" where
  "error_text err = (case err of JsError m \<Rightarrow> m | NonError \<Rightarrow> ''An unexpected error occurred'')"

text \<open>
  The specs that the two loops of lines 267 and 268 read from a report, in order and each
  with its suite. Reading stops at an entry of \<^verbatim>\<open>suites\<close> or \<^verbatim>\<open>specs\<close> that is
  \<^verbatim>\<open>null\<close>; the second component says whether it did.
\<close>

fun read_specs :: "pw_suite \<Rightarrow> pw_spec option list \<Rightarrow> (pw_suite \<times> pw_spec) list \<times> bool" where
  "read_specs suite [] = ([], False)"
| "read_specs suite (None # rest) = ([], True)"
| "read_specs suite (Some spec # rest) =
     (case read_specs suite rest of (l, stopped) \<Rightarrow> ((suite, spec) # l, stopped))"

fun read_suites :: "pw_suite option list \<Rightarrow> (pw_suite \<times> pw_spec) list \<times> bool" where
  "read_suites [] = ([], False)"
| "read_suites (None # rest) = ([], True)"
| "read_suites (Some suite # rest) =
     (case read_specs suite (case suite_specs suite of None \<Rightarrow> [] | Some l \<Rightarrow> l) of
        (l, True) \<Rightarrow> (l, True)
      | (l, False) \<Rightarrow> (case read_suites rest of (l2, stopped) \<Rightarrow> (l @ l2, stopped)))"

definition report_specs :: "raw_report \<Rightarrow> (pw_suite \<times> pw_spec) list" where
  "report_specs raw = fst (read_suites (case suites raw of None \<Rightarrow> [] | Some l \<Rightarrow> l))"

text \<open>
  The counters of lines 255 and 256 agree with the list of line 259: neither is
  negative, and together they count the entries.
\<close>

definition tally :: "parse_state \<Rightarrow> bool" where
  "tally st \<longleftrightarrow> 0 \<le> passedTests st \<and> 0 \<le> failedTests st \<and>
     passedTests st + failedTests st = int (length (testResults st))"

text \<open>How many of the listed specs have \<^verbatim>\<open>ok\<close> set, and how many have not.\<close>

definition oks :: "(pw_suite \<times> pw_spec) list \<Rightarrow> int" where
  "oks l = int (length (filter (\<lambda>p. spec_ok (snd p)) l))"

definition not_oks :: "(pw_suite \<times> pw_spec) list \<Rightarrow> int" where
  "not_oks l = int (length (filter (\<lambda>p. \<not> spec_ok (snd p)) l))"

text \<open>The four counts of a result, and the three values its verdict is read from.\<close>

definition counts_of :: "TestExecutionResults \<Rightarrow> int \<times> int \<times> int \<times> int" where
  "counts_of r = (passed_tests r, failed_tests r, skipped_tests r, total_tests r)"

definition verdict_of :: "TestExecutionResults \<Rightarrow> TestResult \<times> TestRunStatus \<times> int \<times> int" where
  "verdict_of r = (result r, status r, passed_tests r, failed_tests r)"

section \<open>Concrete runs\<close>

text \<open>
  Inputs, scripts, reports and environments on which the theorems below are evaluated.
  In \<open>demo_local_env\<close> every call succeeds, the test process exits with 0 after six
  seconds and leaves no report.
\<close>

definition demo_inputs :: ActionInputs where
  "demo_inputs =
     \<lparr>apiKey = ''key'', projectId = ''7'', projectName = [], testSuite = ''all'',
      testIds = None, baseUrl = None, browser = ''chromium'', headless = True,
      timeoutMinutes = Some 30, failOnTestFailure = True, postPrComment = True,
      mode = ''run'', autoDiscover = True, maxSeedTests = Some 3, seedDescriptions = None\<rparr>"

definition demo_script :: "int \<Rightarrow> EmbeddedScript" where
  "demo_script n =
     \<lparr>script_id = n, script_name = ''checkout'',
      script_code = ''let page: Page;''\<rparr>"

definition demo_response :: "EmbeddedScript list \<Rightarrow> TriggerTestsResponse" where
  "demo_response scs =
     \<lparr>resp_execution_id = ''exec-1'', run_locally = True, scripts = Some scs,
      test_files = None\<rparr>"

definition demo_spec :: "bool \<Rightarrow> pw_spec" where
  "demo_spec b =
     \<lparr>spec_ok = b, spec_title = Some ''pay'',
      spec_tests = Some [\<lparr>pw_results = Some [\<lparr>attempt_duration = Some 1200,
                                               attempt_error = None\<rparr>]\<rparr>]\<rparr>"

definition demo_suite :: "string \<Rightarrow> bool list \<Rightarrow> pw_suite" where
  "demo_suite f bs =
     \<lparr>suite_file = Some f, suite_specs = Some (map (\<lambda>b. Some (demo_spec b)) bs)\<rparr>"

definition demo_local_env :: local_env where
  "demo_local_env =
     \<lparr>mkdtemp_out = Inr ''/tmp/qamax-a1'', mkdir_out = Inr (),
      writeFile_out = (\<lambda>_. Inr ()), npm_install_out = Inr 0, browser_install_out = Inr 0,
      playwright_test_out = Inr 0, startTime = 1000, endTime = 7000, completedTime = 7005,
      results_json = NoFile, rmSync_out = Inr (), reportResults_out = Inr ()\<rparr>"

definition demo_context :: GitHubContext where
  "demo_context =
     \<lparr>repository = ''acme/shop'', sha = ''abc'', ref = ''refs/heads/main'', run_id = ''1'',
      run_number = 1, pr_number = None, actor = ''dev'', event_name = ''push''\<rparr>"

definition demo_run_env :: "TriggerTestsResponse \<Rightarrow> run_env" where
  "demo_run_env resp =
     \<lparr>getInput = (\<lambda>n. if n = ''api-key'' then ''key''
                       else if n = ''project-id'' then ''7'' else []),
      ghContext_out = Inr demo_context, github_token = None,
      validateApiKey_out = Inr True, getProjects_out = Inr [],
      resolveProject_out = Inr None,
      seedTests_out = Inr \<lparr>tests_created = 0, seed_skipped = 0, seed_message = ''none''\<rparr>,
      triggerTests_out = Inr resp, local_run = demo_local_env,
      repo_exec_out = Inr 0, repo_startTime = 1000, repo_endTime = 7000,
      repo_completedTime = 7005,
      waitForCompletion_out = Inl (JsError ''Execution timed out''),
      summary_out = Inr (), createComment_out = Inr (), cancelExecution_out = Inr ()\<rparr>"

definition demo_result_of :: "EmbeddedScript list \<Rightarrow> int \<Rightarrow> results_file \<Rightarrow> TestExecutionResults" where
  "demo_result_of scs ec rf = local_results ''exec-1'' ''chromium'' scs ec 1000 7000 7005 rf"

definition demo_report :: "(string \<times> bool list) list \<Rightarrow> raw_report" where
  "demo_report l = \<lparr>suites = Some (map (\<lambda>e. Some (demo_suite (fst e) (snd e))) l)\<rparr>"

definition demo_repo_response :: "string list \<Rightarrow> TriggerTestsResponse" where
  "demo_repo_response files =
     \<lparr>resp_execution_id = ''exec-1'', run_locally = True, scripts = None,
      test_files = Some files\<rparr>"

definition demo_repo_result_of :: "string list \<Rightarrow> int \<Rightarrow> TestExecutionResults" where
  "demo_repo_result_of files ec = repo_results ''exec-1'' ''chromium'' files ec 1000 7000 7005"


definition demo_remote_response :: TriggerTestsResponse where
  "demo_remote_response =
     \<lparr>resp_execution_id = ''exec-1'', run_locally = False, scripts = None,
      test_files = None\<rparr>"


text \<open>The events of lines 185 to 236 when every call succeeds.\<close>

definition provision_events :: "EmbeddedScript list \<Rightarrow> ActionInputs \<Rightarrow> string \<Rightarrow> event list" where
  "provision_events scs inputs d =
     [Mkdtemp, Mkdir (path_join d ''tests''),
      WriteFile (path_join d ''playwright.config.js'') (configContent inputs)] @
     map (\<lambda>sc. WriteFile (path_join (path_join d ''tests'') (safeFileName sc))
                  (strip_types (script_code sc))) scs @
     [WriteFile (path_join d ''package.json'') packageJson,
      Exec ''npm'' [''install'', ''--no-audit'', ''--no-fund''],
      Exec ''npx'' [''playwright'', ''install'', ''--with-deps'', browser inputs]]"

section \<open>Properties of actions\<close>

text \<open>
  \<open>steady P m\<close>: whatever the state and the outcome, \<open>m\<close> only appends events that
  satisfy \<open>P\<close>; it leaves \<open>executionId\<close> and \<open>client\<close> alone.
\<close>

definition steady :: "(event \<Rightarrow> bool) \<Rightarrow> 'a action \<Rightarrow> bool" where
  "steady P m \<longleftrightarrow> (\<forall>s. \<exists>tr. fst (m s) = s\<lparr>trace := trace s @ tr\<rparr> \<and> list_all P tr)"

definition quiet_event :: "event \<Rightarrow> bool" where
  "quiet_event ev \<longleftrightarrow> cancel_of ev = None \<and> failure_of ev = None"

definition local_event :: "event \<Rightarrow> bool" where
  "local_event ev \<longleftrightarrow> removal_of ev = None \<and> report_of ev = None \<and> quiet_event ev"


section \<open>The sanitizer is not idempotent\<close>

lemma strip_types_example:
  "strip_types ''async ({ page }: { page: Page }) => {}'' = ''async ({ page }: { page }) => {}''"
  by code_simp

lemma replace_imports_fixed: "\<not> has_import s \<Longrightarrow> replace_imports 0 s = s"
  by (induction s) auto

lemma replace_annotations_fixed: "\<not> has_annotation s \<Longrightarrow> replace_annotations 0 s = s"
  by (induction s) (auto split: option.splits)

lemma replace_imports_length: "length (replace_imports k s) \<le> length s - k"
proof (induction s arbitrary: k)
  case Nil
  then show ?case by simp
next
  case (Cons c cs)
  show ?case
  proof (cases "0 < k")
    case True
    have "length (replace_imports (k - 1) cs) \<le> length cs - (k - 1)" by (rule Cons.IH)
    with True show ?thesis by simp
  next
    case False
    show ?thesis
    proof (cases "match_import (c # cs)")
      case None
      have "length (replace_imports 0 cs) \<le> length cs - 0" by (rule Cons.IH)
      with False None show ?thesis by simp
    next
      case (Some r)
      have "length (replace_imports (length cs - length r) cs) \<le> length cs - (length cs - length r)"
        by (rule Cons.IH)
      with False Some show ?thesis by simp
    qed
  qed
qed

lemma has_import_shrinks: "has_import s \<Longrightarrow> length (replace_imports 0 s) < length s"
proof (induction s)
  case Nil
  then show ?case by simp
next
  case (Cons c cs)
  show ?case
  proof (cases "match_import (c # cs)")
    case None
    with Cons show ?thesis by simp
  next
    case (Some r)
    have "length (replace_imports (length cs - length r) cs) \<le> length cs - (length cs - length r)"
      by (rule replace_imports_length)
    with Some show ?thesis by simp
  qed
qed

lemma match_lit_length: "match_lit l s = Some r \<Longrightarrow> length r + length l = length s"
  by (auto simp: match_lit_def split: if_splits) (metis length_take min.absorb2 nat_le_linear take_all le_add_diff_inverse2 min.cobounded1)

lemma match_alternatives_length: "match_alternatives as s = Some r \<Longrightarrow> length r \<le> length s"
  by (induction as) (auto simp: match_type_name_def split: option.splits list.splits if_splits dest: match_lit_length)

lemma match_annotation_length:
  assumes "match_annotation s = Some (w, r)"
  shows "length w + length r < length s"
proof -
  from assms obtain s1 where w: "w = takeWhile is_word s"
    and s1: "match_lit '':'' (dropWhile is_space (dropWhile is_word s)) = Some s1"
    and r: "match_alternatives type_names (dropWhile is_space s1) = Some r"
    by (auto simp: match_annotation_def Let_def split: if_splits Option.bind_splits)
  have "length r \<le> length s1"
    using match_alternatives_length [OF r] length_dropWhile_le [of is_space s1] by linarith
  moreover have "length s1 < length (dropWhile is_word s)"
    using match_lit_length [OF s1] length_dropWhile_le [of is_space "dropWhile is_word s"] by simp
  moreover have "length (takeWhile is_word s) + length (dropWhile is_word s) = length s"
    by (metis length_append takeWhile_dropWhile_id)
  ultimately show ?thesis using w by simp
qed

lemma replace_annotations_length: "length (replace_annotations k s) \<le> length s - k"
proof (induction s arbitrary: k)
  case Nil
  then show ?case by simp
next
  case (Cons c cs)
  show ?case
  proof (cases "0 < k")
    case True
    have "length (replace_annotations (k - 1) cs) \<le> length cs - (k - 1)" by (rule Cons.IH)
    with True show ?thesis by simp
  next
    case False
    show ?thesis
    proof (cases "match_annotation (c # cs)")
      case None
      have "length (replace_annotations 0 cs) \<le> length cs - 0" by (rule Cons.IH)
      with False None show ?thesis by simp
    next
      case (Some p)
      obtain w r where p: "p = (w, r)" by (cases p)
      have "length (replace_annotations (length cs - length r) cs)
              \<le> length cs - (length cs - length r)"
        by (rule Cons.IH)
      moreover have "length w + length r < length (c # cs)"
        using Some p by (intro match_annotation_length) simp
      ultimately show ?thesis using False Some p by simp
    qed
  qed
qed

lemma has_annotation_shrinks:
  "has_annotation s \<Longrightarrow> length (replace_annotations 0 s) < length s"
proof (induction s)
  case Nil
  then show ?case by simp
next
  case (Cons c cs)
  show ?case
  proof (cases "match_annotation (c # cs)")
    case None
    with Cons show ?thesis by simp
  next
    case (Some p)
    obtain w r where p: "p = (w, r)" by (cases p)
    have "length (replace_annotations (length cs - length r) cs)
            \<le> length cs - (length cs - length r)"
      by (rule replace_annotations_length)
    moreover have "length w + length r < length (c # cs)"
      using Some p by (intro match_annotation_length) simp
    ultimately show ?thesis using Some p by simp
  qed
qed

lemma strip_types_fixed_iff:
  "strip_types t = t \<longleftrightarrow> \<not> has_import t \<and> \<not> has_annotation t"
proof
  assume fixed: "strip_types t = t"
  have le: "length (replace_annotations 0 (replace_imports 0 t)) \<le> length (replace_imports 0 t)"
    using replace_annotations_length [of 0 "replace_imports 0 t"] by simp
  have no_import: "\<not> has_import t"
  proof
    assume "has_import t"
    then have "length (replace_imports 0 t) < length t" by (rule has_import_shrinks)
    with le have "length (strip_types t) < length t" by (simp add: strip_types_def)
    with fixed show False by simp
  qed
  then have same: "replace_imports 0 t = t" by (rule replace_imports_fixed)
  have "\<not> has_annotation t"
  proof
    assume "has_annotation t"
    then have "length (replace_annotations 0 t) < length t" by (rule has_annotation_shrinks)
    with same have "length (strip_types t) < length t" by (simp add: strip_types_def)
    with fixed show False by simp
  qed
  with no_import show "\<not> has_import t \<and> \<not> has_annotation t" by simp
next
  assume "\<not> has_import t \<and> \<not> has_annotation t"
  then show "strip_types t = t"
    by (simp add: strip_types_def replace_imports_fixed replace_annotations_fixed)
qed

text \<open>
  Claim C7, as amended. Sanitizing a second time changes nothing exactly when the text
  sanitized once holds no further match of either pattern: no type-only import
  declaration and no parameter annotated with one of the six type names. (Each
  replacement shortens the text, so a remaining match is always removed by the second
  pass.)
\<close>

theorem strip_types_twice:
  "strip_types (strip_types s) = strip_types s \<longleftrightarrow>
     \<not> has_import (strip_types s) \<and> \<not> has_annotation (strip_types s)"
  by (rule strip_types_fixed_iff)

theorem strip_types_twice_witness:
  "strip_types (strip_types ''let page: Page;'') = strip_types ''let page: Page;'' \<and>
   strip_types ''let page: Page;'' = ''let page;''"
proof -
  have v: "strip_types ''let page: Page;'' = ''let page;''" by code_simp
  have "\<not> has_import ''let page;'' \<and> \<not> has_annotation ''let page;''" by code_simp
  then show ?thesis using strip_types_twice [of "''let page: Page;''"] v by simp
qed

text \<open>
  The transform is not idempotent on every text. In \<^verbatim>\<open>x: Page: Page\<close> the first pass
  matches \<^verbatim>\<open>x: Page\<close> and resumes behind it, where \<^verbatim>\<open>: Page\<close> has no word in front
  of its colon; the output \<^verbatim>\<open>x: Page\<close> matches again.
\<close>

theorem strip_types_not_idempotent:
  "strip_types ''x: Page: Page'' = ''x: Page'' \<and>
   strip_types (strip_types ''x: Page: Page'') = ''x'' \<and>
   strip_types (strip_types ''x: Page: Page'') \<noteq> strip_types ''x: Page: Page''"
proof -
  have a: "strip_types ''x: Page: Page'' = ''x: Page''" by code_simp
  have b: "strip_types ''x: Page'' = ''x''" by code_simp
  show ?thesis by (simp add: a b)
qed

section \<open>The counters of a local run\<close>

lemma parse_spec_tally: "tally st \<Longrightarrow> parse_spec m suite entry st = Inr st1 \<Longrightarrow> tally st1"
  by (auto simp: parse_spec_def tally_def Let_def split: option.splits if_splits)

lemma parse_specs_tally: "tally st \<Longrightarrow> tally (fst (parse_specs m suite es st))"
proof (induction es arbitrary: st)
  case Nil
  then show ?case by simp
next
  case (Cons entry rest)
  show ?case
  proof (cases "parse_spec m suite entry st")
    case (Inl e)
    with Cons.prems show ?thesis by simp
  next
    case (Inr st1)
    with Cons.prems have "tally st1" by (auto dest: parse_spec_tally)
    then have "tally (fst (parse_specs m suite rest st1))" by (rule Cons.IH)
    with Inr show ?thesis by simp
  qed
qed

lemma parse_suites_tally: "tally st \<Longrightarrow> tally (fst (parse_suites m ss st))"
proof (induction ss arbitrary: st)
  case Nil
  then show ?case by simp
next
  case (Cons entry rest)
  show ?case
  proof (cases entry)
    case None
    with Cons.prems show ?thesis by simp
  next
    case (Some suite)
    let ?es = "case suite_specs suite of None \<Rightarrow> [] | Some l \<Rightarrow> l"
    obtain st1 b where p: "parse_specs m suite ?es st = (st1, b)"
      by (cases "parse_specs m suite ?es st")
    have t1: "tally st1" using parse_specs_tally [OF Cons.prems, of m suite ?es] p by simp
    show ?thesis
    proof (cases b)
      case True
      with p t1 Some show ?thesis by simp
    next
      case False
      have "tally (fst (parse_suites m rest st1))" using t1 by (rule Cons.IH)
      with p False Some show ?thesis by simp
    qed
  qed
qed

lemma parse_report_tally: "tally st \<Longrightarrow> tally (parse_report m rf st)"
  by (cases rf) (simp_all add: parse_report_def parse_suites_tally)

lemma count_tests_tally: "tally (count_tests scs ec d rf)"
proof -
  let ?st0 = "\<lparr>passedTests = 0, failedTests = 0, testResults = []\<rparr>"
  have "tally ?st0" by (simp add: tally_def)
  then have t: "tally (parse_report (scriptMap_of scs) rf ?st0)" by (rule parse_report_tally)
  show ?thesis
    unfolding count_tests_def infer_from_exit_code_def Let_def
    using t by (auto simp: tally_def)
qed

lemma spec_result_status: "test_status (spec_result m su sp) = (if spec_ok sp then Passed else Failed)"
  by (simp add: spec_result_def Let_def)

lemma oks_append: "oks (a @ b) = oks a + oks b" and not_oks_append: "not_oks (a @ b) = not_oks a + not_oks b"
  by (simp_all add: oks_def not_oks_def)

lemma parse_specs_exact:
  "parse_specs m suite es st =
     (st\<lparr>passedTests := passedTests st + oks (fst (read_specs suite es)),
         failedTests := failedTests st + not_oks (fst (read_specs suite es)),
         testResults := testResults st @
           map (\<lambda>p. spec_result m (fst p) (snd p)) (fst (read_specs suite es))\<rparr>,
      snd (read_specs suite es))"
proof (induction es arbitrary: st)
  case Nil
  then show ?case by (simp add: oks_def not_oks_def)
next
  case (Cons entry rest)
  show ?case
  proof (cases entry)
    case None
    then show ?thesis by (simp add: parse_spec_def oks_def not_oks_def)
  next
    case (Some spec)
    obtain l stopped where r: "read_specs suite rest = (l, stopped)"
      by (cases "read_specs suite rest")
    show ?thesis
      using Some r Cons.IH
      by (simp add: parse_spec_def Let_def spec_result_status oks_def not_oks_def)
  qed
qed

lemma parse_suites_exact:
  "parse_suites m ss st =
     (st\<lparr>passedTests := passedTests st + oks (fst (read_suites ss)),
         failedTests := failedTests st + not_oks (fst (read_suites ss)),
         testResults := testResults st @
           map (\<lambda>p. spec_result m (fst p) (snd p)) (fst (read_suites ss))\<rparr>,
      snd (read_suites ss))"
proof (induction ss arbitrary: st)
  case Nil
  then show ?case by (simp add: oks_def not_oks_def)
next
  case (Cons entry rest)
  show ?case
  proof (cases entry)
    case None
    then show ?thesis by (simp add: oks_def not_oks_def)
  next
    case (Some suite)
    let ?es = "case suite_specs suite of None \<Rightarrow> [] | Some l \<Rightarrow> l"
    obtain l stopped where r: "read_specs suite ?es = (l, stopped)"
      by (cases "read_specs suite ?es")
    obtain l2 stopped2 where r2: "read_suites rest = (l2, stopped2)"
      by (cases "read_suites rest")
    show ?thesis
    proof (cases stopped)
      case True
      with Some r parse_specs_exact [of m suite ?es st] show ?thesis by simp
    next
      case False
      with Some r r2 parse_specs_exact [of m suite ?es st] Cons.IH show ?thesis
        by (simp add: oks_append not_oks_append)
    qed
  qed
qed

lemma parse_report_exact:
  "parse_report m (Parsed raw) \<lparr>passedTests = 0, failedTests = 0, testResults = []\<rparr> =
     \<lparr>passedTests = oks (report_specs raw), failedTests = not_oks (report_specs raw),
      testResults = map (\<lambda>p. spec_result m (fst p) (snd p)) (report_specs raw)\<rparr>"
  by (simp add: parse_report_def report_specs_def parse_suites_exact)

section \<open>File names identify scripts\<close>

lemma digit_char_inj: "a < 10 \<Longrightarrow> b < 10 \<Longrightarrow> digit_char a = digit_char b \<Longrightarrow> a = b"
proof -
  assume a: "a < 10" and b: "b < 10" and e: "digit_char a = digit_char b"
  have d: "distinct ''0123456789''" by simp
  have "length ''0123456789'' = 10" by simp
  with a b e d show ?thesis unfolding digit_char_def by (metis nth_eq_iff_index_eq)
qed

lemma decimal_nonempty: "decimal n \<noteq> []"
  by (subst decimal.simps) simp

lemma decimal_digits: "set (decimal n) \<subseteq> set ''0123456789''"
proof (induction n rule: decimal.induct)
  case (1 n)
  have "digit_char (n mod 10) \<in> set ''0123456789''"
    unfolding digit_char_def by (rule nth_mem) simp
  with 1 show ?case by (subst decimal.simps) auto
qed

lemma decimal_inj: "decimal a = decimal b \<Longrightarrow> a = b"
proof (induction a arbitrary: b rule: decimal.induct)
  case (1 n)
  from "1.prems" have e: "(if n < 10 then [] else decimal (n div 10)) @ [digit_char (n mod 10)] =
      (if b < 10 then [] else decimal (b div 10)) @ [digit_char (b mod 10)]"
    by (subst (asm) decimal.simps, subst (asm) (2) decimal.simps)
  then have m: "n mod 10 = b mod 10" by (auto dest: digit_char_inj [rotated 2])
  from e have f: "(if n < 10 then [] else decimal (n div 10)) = (if b < 10 then [] else decimal (b div 10))"
    by simp
  show ?case
  proof (cases "n < 10")
    case True
    with f have "b < 10" using decimal_nonempty [of "b div 10"] by (auto split: if_splits)
    with True m show ?thesis by simp
  next
    case False
    with f have b: "\<not> b < 10" using decimal_nonempty [of "n div 10"] by (auto split: if_splits)
    with False f have "decimal (n div 10) = decimal (b div 10)" by simp
    with False have "n div 10 = b div 10" by (rule "1.IH")
    with m show ?thesis by (metis div_mult_mod_eq)
  qed
qed

lemma toString_int_inj: "toString_int i = toString_int j \<Longrightarrow> i = j"
proof -
  assume e: "toString_int i = toString_int j"
  have no_minus: "\<And>n. hd (decimal n) \<noteq> CHR ''-''"
  proof -
    fix n
    have "hd (decimal n) \<in> set (decimal n)" using decimal_nonempty by simp
    with decimal_digits [of n] show "hd (decimal n) \<noteq> CHR ''-''" by auto
  qed
  show ?thesis
  proof (cases "0 \<le> i"; cases "0 \<le> j")
    assume "0 \<le> i" "0 \<le> j"
    with e have "nat i = nat j" by (auto simp: toString_int_def dest: decimal_inj)
    with \<open>0 \<le> i\<close> \<open>0 \<le> j\<close> show ?thesis by simp
  next
    assume "0 \<le> i" "\<not> 0 \<le> j"
    with e have "decimal (nat i) = CHR ''-'' # decimal (nat (- j))" by (simp add: toString_int_def)
    then have "hd (decimal (nat i)) = CHR ''-''" by simp
    with no_minus show ?thesis by blast
  next
    assume "\<not> 0 \<le> i" "0 \<le> j"
    with e have "decimal (nat j) = CHR ''-'' # decimal (nat (- i))" by (simp add: toString_int_def)
    then have "hd (decimal (nat j)) = CHR ''-''" by simp
    with no_minus show ?thesis by blast
  next
    assume "\<not> 0 \<le> i" "\<not> 0 \<le> j"
    with e have "nat (- i) = nat (- j)" by (auto simp: toString_int_def dest: decimal_inj)
    with \<open>\<not> 0 \<le> i\<close> \<open>\<not> 0 \<le> j\<close> show ?thesis by simp
  qed
qed

lemma safeFileName_inj: "safeFileName a = safeFileName b \<Longrightarrow> script_id a = script_id b"
  by (simp add: safeFileName_def toString_int_inj)

lemma scriptMap_of_snoc:
  "scriptMap_of (scs @ [x]) = (scriptMap_of scs)(safeFileName x \<mapsto> x)"
  by (simp add: scriptMap_of_def)

lemma scriptMap_of_lookup:
  "distinct (map script_id scs) \<Longrightarrow> sc \<in> set scs \<Longrightarrow> scriptMap_of scs (safeFileName sc) = Some sc"
proof (induction scs rule: rev_induct)
  case Nil
  then show ?case by simp
next
  case (snoc x xs)
  show ?case
  proof (cases "sc = x")
    case True
    then show ?thesis by (simp add: scriptMap_of_snoc)
  next
    case False
    with snoc.prems have mem: "sc \<in> set xs" and d: "distinct (map script_id xs)"
      and "script_id x \<notin> script_id ` set xs" by auto
    then have "script_id sc \<noteq> script_id x" by (metis imageI)
    then have "safeFileName sc \<noteq> safeFileName x" by (auto dest: safeFileName_inj)
    with snoc.IH [OF d mem] show ?thesis by (simp add: scriptMap_of_snoc)
  qed
qed

section \<open>Running actions\<close>

lemma bind_Inr: "bind m f s = (s2, Inr y) \<longleftrightarrow> (\<exists>s1 x. m s = (s1, Inr x) \<and> f x s1 = (s2, Inr y))"
  by (auto simp: bind_def split: prod.splits sum.splits)

lemma bind_Inl:
  "bind m f s = (s2, Inl e) \<longleftrightarrow>
     m s = (s2, Inl e) \<or> (\<exists>s1 x. m s = (s1, Inr x) \<and> f x s1 = (s2, Inl e))"
  by (auto simp: bind_def split: prod.splits sum.splits)



lemma ret_run: "ret x s = (s, Inr x)"
  by (simp add: ret_def)



lemma call_run: "call ev outcome s = (s\<lparr>trace := trace s @ [ev]\<rparr>, outcome)"
  by (cases outcome) (simp_all add: call_def bind_def emit_def throw_def ret_def)

lemma try_exec_run:
  "try_catch (exec cmd args True outcome) (\<lambda>_. ret 1) s =
     (s\<lparr>trace := trace s @ [Exec cmd args]\<rparr>, Inr (exit_code_of outcome))"
  by (cases outcome) (simp_all add: try_catch_def exec_def call_run exit_code_of_def ret_def)

lemma try_call_run:
  "try_catch (call ev outcome) (\<lambda>_. ret ()) s = (s\<lparr>trace := trace s @ [ev]\<rparr>, Inr ())"
  by (cases outcome) (simp_all add: try_catch_def call_run ret_def)

lemma execute_and_report_run:
  "execute_and_report eid scs inputs env tmpDir s =
     (let r = local_results eid (browser inputs) scs (exit_code_of (playwright_test_out env))
                (startTime env) (endTime env) (completedTime env) (results_json env)
      in (s\<lparr>trace := trace s @
             [Exec ''npx'' [''playwright'', ''test'', ''--config=playwright.config.js''],
              RmSync tmpDir,
              ReportResults eid (result r) (passed_tests r) (failed_tests r) (total_tests r)]\<rparr>,
          case reportResults_out env of Inl e \<Rightarrow> Inl e | Inr u \<Rightarrow> Inr r))"
  by (cases "reportResults_out env")
     (simp_all add: execute_and_report_def Let_def bind_def try_exec_run try_call_run call_run ret_run)

lemma runTestsLocally_returns:
  assumes "runTestsLocally resp inputs env s = (s2, Inr r)"
  shows "r = local_results (resp_execution_id resp) (browser inputs)
               (case scripts resp of None \<Rightarrow> [] | Some l \<Rightarrow> l)
               (exit_code_of (playwright_test_out env))
               (startTime env) (endTime env) (completedTime env) (results_json env)"
  using assms
  by (auto simp: runTestsLocally_def Let_def bind_Inr execute_and_report_run split: sum.splits)

lemma write_scripts_ok:
  assumes "\<And>p. writeFile_out env p = Inr ()"
  shows "write_scripts env d scs s =
     (s\<lparr>trace := trace s @
          map (\<lambda>sc. WriteFile (path_join d (safeFileName sc)) (strip_types (script_code sc))) scs\<rparr>,
      Inr ())"
  by (induction scs arbitrary: s)
     (simp_all add: ret_run bind_def writeFileSync_def call_run assms)

lemma provision_ok:
  assumes "mkdtemp_out env = Inr d" "mkdir_out env = Inr ()"
    and w: "\<And>p. writeFile_out env p = Inr ()"
    and "npm_install_out env = Inr 0" "browser_install_out env = Inr 0"
  shows "provision_sandbox scs inputs env s =
           (s\<lparr>trace := trace s @ provision_events scs inputs d\<rparr>, Inr d)"
  using assms(1,2,4,5)
  by (simp add: provision_sandbox_def provision_events_def bind_def call_run exec_def
        writeFileSync_def w write_scripts_ok [OF w] ret_run)

lemma runTestsLocally_ok:
  assumes "mkdtemp_out env = Inr d" "mkdir_out env = Inr ()"
    and "\<And>p. writeFile_out env p = Inr ()"
    and "npm_install_out env = Inr 0" "browser_install_out env = Inr 0"
    and "reportResults_out env = Inr ()"
  shows "snd (runTestsLocally resp inputs env s) =
     Inr (local_results (resp_execution_id resp) (browser inputs)
            (case scripts resp of None \<Rightarrow> [] | Some l \<Rightarrow> l)
            (exit_code_of (playwright_test_out env))
            (startTime env) (endTime env) (completedTime env) (results_json env))"
  using assms(6)
  by (simp add: runTestsLocally_def Let_def bind_def provision_ok [OF assms(1-5)]
        execute_and_report_run)

section \<open>The results of local runs\<close>

lemma repo_tests_run:
  "repo_tests env inputs eid files s =
     (s\<lparr>trace := trace s @ [Exec ''npx'' ([''playwright'', ''test''] @ files)]\<rparr>,
      Inr (repo_results eid (browser inputs) files (exit_code_of (repo_exec_out env))
             (repo_startTime env) (repo_endTime env) (repo_completedTime env)))"
  by (simp add: repo_tests_def bind_def try_exec_run ret_run)

lemma local_results_counts:
  fixes eid b scs ec t0 t1 t2 rf
  defines "r \<equiv> local_results eid b scs ec t0 t1 t2 rf"
  shows "0 \<le> skipped_tests r"
    and "passed_tests r + failed_tests r = int (length (tests r))"
    and "total_tests r = int (length scs)"
    and "passed_tests r + failed_tests r + skipped_tests r =
           max (total_tests r) (int (length (tests r)))"
proof -
  let ?st = "count_tests scs ec (of_int (t1 - t0) / 1000) rf"
  have t: "tally ?st" by (rule count_tests_tally)
  show "0 \<le> skipped_tests r"
    by (simp add: r_def local_results_def Let_def skipped_of_def)
  show "passed_tests r + failed_tests r = int (length (tests r))"
    using t by (simp add: r_def local_results_def Let_def tally_def)
  show "total_tests r = int (length scs)"
    by (simp add: r_def local_results_def Let_def)
  show "passed_tests r + failed_tests r + skipped_tests r =
           max (total_tests r) (int (length (tests r)))"
    using t by (simp add: r_def local_results_def Let_def tally_def skipped_of_def)
qed

lemma fallback_fills:
  assumes "testResults (parse_report m rf \<lparr>passedTests = 0, failedTests = 0, testResults = []\<rparr>) = []"
  shows "length (testResults (infer_from_exit_code scs ec d
           (parse_report m rf \<lparr>passedTests = 0, failedTests = 0, testResults = []\<rparr>))) = length scs"
  using assms by (simp add: infer_from_exit_code_def Let_def)

text \<open>
  Claim C1, as amended. In every result of a local run of embedded scripts the skipped
  count is not negative, the passed and failed counts together are the number of
  individual results, the total is the number of embedded scripts, and passed, failed and
  skipped add up to the larger of the total and the number of individual results. So
  they add up to the total whenever the report yields no more results than there are
  scripts, and always when the classification by exit code ran. In the result of a run of
  repository test files nothing is skipped and the counts add up to the total.
\<close>

theorem counts_add_up:
  "(runTestsLocally resp inputs env s = (s1, Inr r) \<longrightarrow>
      0 \<le> skipped_tests r \<and>
      passed_tests r + failed_tests r = int (length (tests r)) \<and>
      total_tests r = int (length (case scripts resp of None \<Rightarrow> [] | Some l \<Rightarrow> l)) \<and>
      passed_tests r + failed_tests r + skipped_tests r =
        max (total_tests r) (int (length (tests r))) \<and>
      (testResults (parse_report (scriptMap_of (case scripts resp of None \<Rightarrow> [] | Some l \<Rightarrow> l))
                      (results_json env)
                      \<lparr>passedTests = 0, failedTests = 0, testResults = []\<rparr>) = [] \<longrightarrow>
         passed_tests r + failed_tests r + skipped_tests r = total_tests r)) \<and>
   (repo_tests renv inputs eid files s = (s2, Inr r2) \<longrightarrow>
      skipped_tests r2 = 0 \<and>
      passed_tests r2 + failed_tests r2 + skipped_tests r2 = total_tests r2)"
proof (intro conjI impI)
  let ?scs = "case scripts resp of None \<Rightarrow> [] | Some l \<Rightarrow> l"
  assume run: "runTestsLocally resp inputs env s = (s1, Inr r)"
  note r = runTestsLocally_returns [OF run]
  show "0 \<le> skipped_tests r" unfolding r by (rule local_results_counts)
  show pf: "passed_tests r + failed_tests r = int (length (tests r))"
    unfolding r by (rule local_results_counts)
  show tot: "total_tests r = int (length ?scs)"
    unfolding r by (rule local_results_counts)
  show sum: "passed_tests r + failed_tests r + skipped_tests r =
        max (total_tests r) (int (length (tests r)))"
    unfolding r by (rule local_results_counts)
  assume none: "testResults (parse_report (scriptMap_of ?scs) (results_json env)
                  \<lparr>passedTests = 0, failedTests = 0, testResults = []\<rparr>) = []"
  have "length (tests r) = length ?scs"
    unfolding r using fallback_fills [OF none]
    by (simp add: local_results_def Let_def count_tests_def)
  with sum tot show "passed_tests r + failed_tests r + skipped_tests r = total_tests r" by simp
next
  assume "repo_tests renv inputs eid files s = (s2, Inr r2)"
  then have r2: "r2 = repo_results eid (browser inputs) files (exit_code_of (repo_exec_out renv))
             (repo_startTime renv) (repo_endTime renv) (repo_completedTime renv)"
    by (simp add: repo_tests_run)
  show "skipped_tests r2 = 0" by (simp add: r2 repo_results_def)
  show "passed_tests r2 + failed_tests r2 + skipped_tests r2 = total_tests r2"
    by (simp add: r2 repo_results_def)
qed

lemma local_results_verdict:
  fixes eid b scs ec t0 t1 t2 rf
  defines "r \<equiv> local_results eid b scs ec t0 t1 t2 rf"
  shows "result r = Passed \<longleftrightarrow> 0 < passed_tests r \<and> failed_tests r = 0"
    and "result r = Failed \<longleftrightarrow> \<not> (0 < passed_tests r \<and> failed_tests r = 0)"
    and "status r = StCompleted \<longleftrightarrow> result r = Passed"
    and "status r = StFailed \<longleftrightarrow> result r \<noteq> Passed"
  by (simp_all add: r_def local_results_def Let_def overallResult_def overallStatus_def)

text \<open>
  Claim C2, as amended. The result of a local run of embedded scripts has the verdict
  passed exactly when a test passed and none failed, and failed otherwise, whatever the
  counts; its status is completed exactly when the verdict is passed, and failed
  otherwise. The result of a run of repository test files has the verdict passed exactly
  when the exit code is 0, with the same status rule; that agrees with the rule on counts
  whenever at least one test file is listed.
\<close>

theorem verdict_from_counts:
  "(runTestsLocally resp inputs env s = (s1, Inr r) \<longrightarrow>
      (result r = Passed \<longleftrightarrow> 0 < passed_tests r \<and> failed_tests r = 0) \<and>
      (result r = Failed \<longleftrightarrow> \<not> (0 < passed_tests r \<and> failed_tests r = 0)) \<and>
      (status r = StCompleted \<longleftrightarrow> result r = Passed) \<and>
      (status r = StFailed \<longleftrightarrow> result r \<noteq> Passed)) \<and>
   (repo_tests renv inputs eid files s = (s2, Inr r2) \<longrightarrow>
      (result r2 = Passed \<longleftrightarrow> exit_code_of (repo_exec_out renv) = 0) \<and>
      (result r2 = Failed \<longleftrightarrow> exit_code_of (repo_exec_out renv) \<noteq> 0) \<and>
      (status r2 = StCompleted \<longleftrightarrow> result r2 = Passed) \<and>
      (status r2 = StFailed \<longleftrightarrow> result r2 \<noteq> Passed) \<and>
      (files \<noteq> [] \<longrightarrow> (result r2 = Passed \<longleftrightarrow> 0 < passed_tests r2 \<and> failed_tests r2 = 0)))"
proof (intro conjI impI)
  assume run: "runTestsLocally resp inputs env s = (s1, Inr r)"
  note r = runTestsLocally_returns [OF run]
  show "result r = Passed \<longleftrightarrow> 0 < passed_tests r \<and> failed_tests r = 0"
    unfolding r by (rule local_results_verdict)
  show "result r = Failed \<longleftrightarrow> \<not> (0 < passed_tests r \<and> failed_tests r = 0)"
    unfolding r by (rule local_results_verdict)
  show "status r = StCompleted \<longleftrightarrow> result r = Passed"
    unfolding r by (rule local_results_verdict)
  show "status r = StFailed \<longleftrightarrow> result r \<noteq> Passed"
    unfolding r by (rule local_results_verdict)
next
  assume "repo_tests renv inputs eid files s = (s2, Inr r2)"
  then have r2: "r2 = repo_results eid (browser inputs) files (exit_code_of (repo_exec_out renv))
             (repo_startTime renv) (repo_endTime renv) (repo_completedTime renv)"
    by (simp add: repo_tests_run)
  show "result r2 = Passed \<longleftrightarrow> exit_code_of (repo_exec_out renv) = 0"
    by (simp add: r2 repo_results_def)
  show "result r2 = Failed \<longleftrightarrow> exit_code_of (repo_exec_out renv) \<noteq> 0"
    by (simp add: r2 repo_results_def)
  show "status r2 = StCompleted \<longleftrightarrow> result r2 = Passed"
    by (simp add: r2 repo_results_def)
  show "status r2 = StFailed \<longleftrightarrow> result r2 \<noteq> Passed"
    by (simp add: r2 repo_results_def)
  assume "files \<noteq> []"
  then show "result r2 = Passed \<longleftrightarrow> 0 < passed_tests r2 \<and> failed_tests r2 = 0"
    by (simp add: r2 repo_results_def)
qed

text \<open>
  Claim C4. When the report gave no individual result, a local run that returns has
  classified by exit code: with exit code 0 all \<open>N\<close> scripts are passed, none failed,
  and each entry has the duration of the run divided by \<open>N\<close> and no error message; with
  another exit code all \<open>N\<close> are failed, each with the message
  \<^verbatim>\<open>Test execution failed\<close> and the same share of the duration. The report gives no
  result when the file is absent, when it cannot be parsed, and when it parses and no
  spec is read from it.
\<close>

theorem exit_code_fallback:
  assumes run: "runTestsLocally resp inputs env s = (s1, Inr r)"
    and scs: "scs = (case scripts resp of None \<Rightarrow> [] | Some l \<Rightarrow> l)"
  shows
    "(testResults (parse_report (scriptMap_of scs) (results_json env)
        \<lparr>passedTests = 0, failedTests = 0, testResults = []\<rparr>) = [] \<longrightarrow>
        (exit_code_of (playwright_test_out env) = 0 \<longrightarrow>
           passed_tests r = int (length scs) \<and> failed_tests r = 0 \<and>
           tests r = map (\<lambda>sc. \<lparr>test_id = script_id sc, test_name = script_name sc,
                                 test_status = Passed,
                                 test_duration_seconds = duration_seconds r / of_nat (length scs),
                                 error_message = None\<rparr>) scs) \<and>
        (exit_code_of (playwright_test_out env) \<noteq> 0 \<longrightarrow>
           passed_tests r = 0 \<and> failed_tests r = int (length scs) \<and>
           tests r = map (\<lambda>sc. \<lparr>test_id = script_id sc, test_name = script_name sc,
                                 test_status = Failed,
                                 test_duration_seconds = duration_seconds r / of_nat (length scs),
                                 error_message = Some ''Test execution failed''\<rparr>) scs)) \<and>
     (results_json env = NoFile \<or> results_json env = Unparsable \<or>
      (\<exists>raw. results_json env = Parsed raw \<and> report_specs raw = []) \<longrightarrow>
        testResults (parse_report (scriptMap_of scs) (results_json env)
          \<lparr>passedTests = 0, failedTests = 0, testResults = []\<rparr>) = [])"
proof (intro conjI impI)
  let ?st0 = "\<lparr>passedTests = 0, failedTests = 0, testResults = []\<rparr>"
  note r = runTestsLocally_returns [OF run, folded scs]
  {
    assume none: "testResults (parse_report (scriptMap_of scs) (results_json env) ?st0) = []"
    have t: "tally (parse_report (scriptMap_of scs) (results_json env) ?st0)"
      by (rule parse_report_tally) (simp add: tally_def)
    with none have z: "passedTests (parse_report (scriptMap_of scs) (results_json env) ?st0) = 0"
      "failedTests (parse_report (scriptMap_of scs) (results_json env) ?st0) = 0"
      by (simp_all add: tally_def)
    {
      assume ec: "exit_code_of (playwright_test_out env) = 0"
      show "passed_tests r = int (length scs)"
        using none ec by (simp add: r local_results_def Let_def count_tests_def infer_from_exit_code_def)
      show "failed_tests r = 0"
        using none ec z by (simp add: r local_results_def Let_def count_tests_def infer_from_exit_code_def)
      show "tests r = map (\<lambda>sc. \<lparr>test_id = script_id sc, test_name = script_name sc,
                                 test_status = Passed,
                                 test_duration_seconds = duration_seconds r / of_nat (length scs),
                                 error_message = None\<rparr>) scs"
        using none ec by (simp add: r local_results_def Let_def count_tests_def infer_from_exit_code_def)
    }
    {
      assume ec: "exit_code_of (playwright_test_out env) \<noteq> 0"
      show "passed_tests r = 0"
        using none ec z by (simp add: r local_results_def Let_def count_tests_def infer_from_exit_code_def)
      show "failed_tests r = int (length scs)"
        using none ec by (simp add: r local_results_def Let_def count_tests_def infer_from_exit_code_def)
      show "tests r = map (\<lambda>sc. \<lparr>test_id = script_id sc, test_name = script_name sc,
                                 test_status = Failed,
                                 test_duration_seconds = duration_seconds r / of_nat (length scs),
                                 error_message = Some ''Test execution failed''\<rparr>) scs"
        using none ec by (simp add: r local_results_def Let_def count_tests_def infer_from_exit_code_def)
    }
  }
  assume "results_json env = NoFile \<or> results_json env = Unparsable \<or>
      (\<exists>raw. results_json env = Parsed raw \<and> report_specs raw = [])"
  then show "testResults (parse_report (scriptMap_of scs) (results_json env) ?st0) = []"
    by (auto simp: parse_report_exact) (simp_all add: parse_report_def)
qed

lemma snd_run: "snd p = Inr r \<Longrightarrow> p = (fst p, Inr r)"
  by (simp add: prod_eq_iff)

lemma demo_local_run:
  "snd (runTestsLocally (demo_response scs) demo_inputs
          (demo_local_env\<lparr>playwright_test_out := Inr ec, results_json := rf\<rparr>) s) =
     Inr (demo_result_of scs ec rf)"
  by (subst runTestsLocally_ok [where d = "''/tmp/qamax-a1''"])
     (simp_all add: demo_local_env_def demo_response_def demo_inputs_def demo_result_of_def
        exit_code_of_def)

lemma demo_repo_run:
  "snd (repo_tests (demo_run_env resp) demo_inputs ''exec-1'' files s) =
     Inr (demo_repo_result_of files 0)"
  by (simp add: repo_tests_run demo_run_env_def demo_inputs_def demo_repo_result_of_def
        exit_code_of_def)

lemma demo_local_run_plain:
  "snd (runTestsLocally (demo_response scs) demo_inputs demo_local_env s) =
     Inr (demo_result_of scs 0 NoFile)"
  using demo_local_run [where scs = scs and ec = 0 and rf = NoFile and s = s]
  by (simp add: demo_local_env_def)

text \<open>Two scripts without a report, and one repository test file.\<close>

theorem counts_add_up_witness:
  "snd (runTestsLocally (demo_response [demo_script 1, demo_script 2]) demo_inputs
          demo_local_env initial_state) =
     Inr (demo_result_of [demo_script 1, demo_script 2] 0 NoFile) \<and>
   0 \<le> skipped_tests (demo_result_of [demo_script 1, demo_script 2] 0 NoFile) \<and>
   passed_tests (demo_result_of [demo_script 1, demo_script 2] 0 NoFile) +
   failed_tests (demo_result_of [demo_script 1, demo_script 2] 0 NoFile) +
   skipped_tests (demo_result_of [demo_script 1, demo_script 2] 0 NoFile) =
     total_tests (demo_result_of [demo_script 1, demo_script 2] 0 NoFile) \<and>
   snd (repo_tests (demo_run_env (demo_repo_response [''a.spec.ts''])) demo_inputs ''exec-1''
          [''a.spec.ts''] initial_state) =
     Inr (demo_repo_result_of [''a.spec.ts''] 0) \<and>
   passed_tests (demo_repo_result_of [''a.spec.ts''] 0) +
   failed_tests (demo_repo_result_of [''a.spec.ts''] 0) +
   skipped_tests (demo_repo_result_of [''a.spec.ts''] 0) =
     total_tests (demo_repo_result_of [''a.spec.ts''] 0)"
proof -
  let ?resp = "demo_response [demo_script 1, demo_script 2]"
  let ?r = "demo_result_of [demo_script 1, demo_script 2] 0 NoFile"
  let ?renv = "demo_run_env (demo_repo_response [''a.spec.ts''])"
  let ?r2 = "demo_repo_result_of [''a.spec.ts''] 0"
  have a: "snd (runTestsLocally ?resp demo_inputs demo_local_env initial_state) = Inr ?r"
    by (rule demo_local_run_plain)
  have b: "snd (repo_tests ?renv demo_inputs ''exec-1'' [''a.spec.ts''] initial_state) = Inr ?r2"
    by (rule demo_repo_run)
  have none: "testResults (parse_report (scriptMap_of (case scripts ?resp of None \<Rightarrow> [] | Some l \<Rightarrow> l))
                      (results_json demo_local_env)
                      \<lparr>passedTests = 0, failedTests = 0, testResults = []\<rparr>) = []"
    by (simp add: demo_local_env_def parse_report_def)
  note local = counts_add_up [THEN conjunct1, rule_format, OF snd_run [OF a]]
  note repo = counts_add_up [THEN conjunct2, rule_format, OF snd_run [OF b]]
  from local none have "0 \<le> skipped_tests ?r"
    and "passed_tests ?r + failed_tests ?r + skipped_tests ?r = total_tests ?r" by blast+
  moreover from repo have "passed_tests ?r2 + failed_tests ?r2 + skipped_tests ?r2 = total_tests ?r2"
    by blast
  ultimately show ?thesis using a b by blast
qed

text \<open>
  Claim C1 as stated fails: one script whose file holds two tests, both passing, gives a
  report of two specs. The total stays 1, the difference \<open>1 - 2 - 0\<close> is clamped to 0,
  and the counts add up to 2.
\<close>

theorem counts_exceed_total:
  "map_sum error_text counts_of
     (snd (runTestsLocally (demo_response [demo_script 1]) demo_inputs
             (demo_local_env\<lparr>playwright_test_out := Inr 0,
                results_json := Parsed (demo_report [(''test-1.spec.js'', [True, True])])\<rparr>)
             initial_state)) = Inr (2, 0, 0, 1)"
proof -
  have "counts_of (demo_result_of [demo_script 1] 0
          (Parsed (demo_report [(''test-1.spec.js'', [True, True])]))) = (2, 0, 0, 1)"
    by code_simp
  then show ?thesis by (simp add: demo_local_run)
qed

theorem verdict_from_counts_witness:
  "snd (runTestsLocally (demo_response [demo_script 1, demo_script 2]) demo_inputs
          demo_local_env initial_state) =
     Inr (demo_result_of [demo_script 1, demo_script 2] 0 NoFile) \<and>
   verdict_of (demo_result_of [demo_script 1, demo_script 2] 0 NoFile) =
     (Passed, StCompleted, 2, 0) \<and>
   snd (repo_tests (demo_run_env (demo_repo_response [''a.spec.ts'']))
          demo_inputs ''exec-1'' [''a.spec.ts''] initial_state) =
     Inr (demo_repo_result_of [''a.spec.ts''] 0) \<and>
   verdict_of (demo_repo_result_of [''a.spec.ts''] 0) = (Passed, StCompleted, 1, 0)"
proof -
  let ?resp = "demo_response [demo_script 1, demo_script 2]"
  let ?r = "demo_result_of [demo_script 1, demo_script 2] 0 NoFile"
  let ?renv = "demo_run_env (demo_repo_response [''a.spec.ts''])"
  let ?r2 = "demo_repo_result_of [''a.spec.ts''] 0"
  have a: "snd (runTestsLocally ?resp demo_inputs demo_local_env initial_state) = Inr ?r"
    by (rule demo_local_run_plain)
  have b: "snd (repo_tests ?renv demo_inputs ''exec-1'' [''a.spec.ts''] initial_state) = Inr ?r2"
    by (rule demo_repo_run)
  have counts: "passed_tests ?r = 2" "failed_tests ?r = 0" "passed_tests ?r2 = 1"
    "failed_tests ?r2 = 0"
    by (simp_all add: demo_result_of_def local_results_def Let_def count_tests_def
          parse_report_def infer_from_exit_code_def demo_repo_result_of_def repo_results_def)
  have ec: "exit_code_of (repo_exec_out ?renv) = 0"
    by (simp add: demo_run_env_def exit_code_of_def)
  note local = verdict_from_counts [THEN conjunct1, rule_format, OF snd_run [OF a]]
  note repo = verdict_from_counts [THEN conjunct2, rule_format, OF snd_run [OF b]]
  from local counts have "result ?r = Passed" "status ?r = StCompleted" by simp_all
  moreover from repo ec have "result ?r2 = Passed" "status ?r2 = StCompleted" by simp_all
  ultimately show ?thesis using a b counts by (simp add: verdict_of_def)
qed

text \<open>
  Claim C2 as stated fails on a run of repository test files: with an empty list of test
  files (an empty array is truthy at line 509) and exit code 0 the verdict is passed while
  no test is counted as passed.
\<close>

theorem passed_without_tests:
  "map_sum error_text verdict_of
     (snd (obtain_results (demo_run_env (demo_repo_response [])) demo_inputs
             (demo_repo_response []) initial_state)) = Inr (Passed, StCompleted, 0, 0)"
  by (simp add: obtain_results_def demo_repo_response_def repo_tests_run demo_run_env_def
        exit_code_of_def repo_results_def verdict_of_def)

theorem exit_code_fallback_witness:
  "snd (runTestsLocally (demo_response [demo_script 1, demo_script 2]) demo_inputs
          demo_local_env initial_state) =
     Inr (demo_result_of [demo_script 1, demo_script 2] 0 NoFile) \<and>
   counts_of (demo_result_of [demo_script 1, demo_script 2] 0 NoFile) = (2, 0, 0, 2) \<and>
   tests (demo_result_of [demo_script 1, demo_script 2] 0 NoFile) =
     [\<lparr>test_id = 1, test_name = ''checkout'', test_status = Passed,
       test_duration_seconds = 3, error_message = None\<rparr>,
      \<lparr>test_id = 2, test_name = ''checkout'', test_status = Passed,
       test_duration_seconds = 3, error_message = None\<rparr>] \<and>
   snd (runTestsLocally (demo_response [demo_script 1, demo_script 2]) demo_inputs
          (demo_local_env\<lparr>playwright_test_out := Inr 1, results_json := Unparsable\<rparr>)
          initial_state) =
     Inr (demo_result_of [demo_script 1, demo_script 2] 1 Unparsable) \<and>
   counts_of (demo_result_of [demo_script 1, demo_script 2] 1 Unparsable) = (0, 2, 0, 2) \<and>
   tests (demo_result_of [demo_script 1, demo_script 2] 1 Unparsable) =
     [\<lparr>test_id = 1, test_name = ''checkout'', test_status = Failed,
       test_duration_seconds = 3, error_message = Some ''Test execution failed''\<rparr>,
      \<lparr>test_id = 2, test_name = ''checkout'', test_status = Failed,
       test_duration_seconds = 3, error_message = Some ''Test execution failed''\<rparr>]"
proof -
  let ?scs = "[demo_script 1, demo_script 2]"
  let ?resp = "demo_response ?scs"
  let ?r = "demo_result_of ?scs 0 NoFile"
  let ?env1 = "demo_local_env\<lparr>playwright_test_out := Inr 1, results_json := Unparsable\<rparr>"
  let ?r1 = "demo_result_of ?scs 1 Unparsable"
  have a: "snd (runTestsLocally ?resp demo_inputs demo_local_env initial_state) = Inr ?r"
    by (rule demo_local_run_plain)
  have b: "snd (runTestsLocally ?resp demo_inputs ?env1 initial_state) = Inr ?r1"
    by (rule demo_local_run)
  have scs: "?scs = (case scripts ?resp of None \<Rightarrow> [] | Some l \<Rightarrow> l)"
    by (simp add: demo_response_def)
  have rf: "results_json demo_local_env = NoFile" "results_json ?env1 = Unparsable"
    by (simp_all add: demo_local_env_def)
  have ec: "exit_code_of (playwright_test_out demo_local_env) = 0"
    "exit_code_of (playwright_test_out ?env1) \<noteq> 0"
    by (simp_all add: demo_local_env_def exit_code_of_def)
  have d: "duration_seconds ?r = 6" "duration_seconds ?r1 = 6" "skipped_tests ?r = 0"
    "skipped_tests ?r1 = 0" "total_tests ?r = 2" "total_tests ?r1 = 2"
    by (simp_all add: demo_result_of_def local_results_def Let_def skipped_of_def count_tests_def
          parse_report_def infer_from_exit_code_def)
  note f0 = exit_code_fallback [OF snd_run [OF a] scs]
  note f1 = exit_code_fallback [OF snd_run [OF b] scs]
  from f0 rf ec have "passed_tests ?r = 2 \<and> failed_tests ?r = 0 \<and>
      tests ?r = map (\<lambda>sc. \<lparr>test_id = script_id sc, test_name = script_name sc,
                       test_status = Passed,
                       test_duration_seconds = duration_seconds ?r / of_nat (length ?scs),
                       error_message = None\<rparr>) ?scs"
    by simp
  moreover from f1 rf ec have "passed_tests ?r1 = 0 \<and> failed_tests ?r1 = 2 \<and>
      tests ?r1 = map (\<lambda>sc. \<lparr>test_id = script_id sc, test_name = script_name sc,
                       test_status = Failed,
                       test_duration_seconds = duration_seconds ?r1 / of_nat (length ?scs),
                       error_message = Some ''Test execution failed''\<rparr>) ?scs"
    by simp
  ultimately show ?thesis using a b d by (simp add: counts_of_def demo_script_def)
qed

text \<open>
  Claim C6, as amended. When the report parses and at least one spec is read from it
  (reading stops at a \<^verbatim>\<open>null\<close> entry, and what was read before it is kept), the
  individual results are the specs read, in order; each has the
  status passed or failed by its own \<^verbatim>\<open>ok\<close>, and, when script ids are distinct, the
  id and name of the script whose generated file name is the base name of the suite's
  file. The passed and failed counts are the numbers of specs with and without
  \<^verbatim>\<open>ok\<close>; the total is the number of embedded scripts, and skipped is that number
  less the number of specs, or 0. With three scripts and three specs, two of them
  \<^verbatim>\<open>ok\<close>, the counts are 2 passed, 1 failed, 0 skipped, 3 in total.
\<close>

theorem report_classification:
  assumes run: "runTestsLocally resp inputs env s = (s1, Inr r)"
    and scs: "scripts resp = Some scs"
    and rf: "results_json env = Parsed raw"
    and sps: "report_specs raw = sps"
    and ne: "sps \<noteq> []"
  shows
    "tests r = map (\<lambda>p. spec_result (scriptMap_of scs) (fst p) (snd p)) sps \<and>
     (\<forall>p \<in> set sps.
        test_status (spec_result (scriptMap_of scs) (fst p) (snd p)) =
          (if spec_ok (snd p) then Passed else Failed)) \<and>
     (\<forall>p \<in> set sps. \<forall>sc \<in> set scs.
        distinct (map script_id scs) \<longrightarrow>
        basename (or_else (suite_file (fst p)) []) = safeFileName sc \<longrightarrow>
          test_id (spec_result (scriptMap_of scs) (fst p) (snd p)) = script_id sc \<and>
          test_name (spec_result (scriptMap_of scs) (fst p) (snd p)) =
            or_else (Some (script_name sc)) (or_else (spec_title (snd p)) (safeFileName sc))) \<and>
     passed_tests r = oks sps \<and>
     failed_tests r = not_oks sps \<and>
     total_tests r = int (length scs) \<and>
     skipped_tests r = max 0 (int (length scs) - int (length sps)) \<and>
     (length scs = 3 \<and> oks sps = 2 \<and> not_oks sps = 1 \<longrightarrow> counts_of r = (2, 1, 0, 3))"
proof -
  let ?st0 = "\<lparr>passedTests = 0, failedTests = 0, testResults = []\<rparr>"
  let ?m = "scriptMap_of scs"
  note r = runTestsLocally_returns [OF run, unfolded scs rf option.case]
  have p: "parse_report ?m (Parsed raw) ?st0 =
      \<lparr>passedTests = oks sps, failedTests = not_oks sps,
       testResults = map (\<lambda>p. spec_result ?m (fst p) (snd p)) sps\<rparr>"
    using sps parse_report_exact [of ?m raw] by simp
  have c: "\<And>ec d. count_tests scs ec d (Parsed raw) =
      \<lparr>passedTests = oks sps, failedTests = not_oks sps,
       testResults = map (\<lambda>p. spec_result ?m (fst p) (snd p)) sps\<rparr>"
    using ne by (simp add: count_tests_def p infer_from_exit_code_def)
  have len: "oks sps + not_oks sps = int (length sps)"
    unfolding oks_def not_oks_def using sum_length_filter_compl [of "\<lambda>p. spec_ok (snd p)" sps]
    by simp
  have t: "tests r = map (\<lambda>p. spec_result ?m (fst p) (snd p)) sps"
    by (simp add: r local_results_def Let_def c)
  have pa: "passed_tests r = oks sps" by (simp add: r local_results_def Let_def c)
  have fa: "failed_tests r = not_oks sps" by (simp add: r local_results_def Let_def c)
  have tot: "total_tests r = int (length scs)" by (simp add: r local_results_def Let_def)
  have sk: "skipped_tests r = max 0 (int (length scs) - int (length sps))"
    using len by (simp add: r local_results_def Let_def c skipped_of_def)
  have st: "\<forall>p \<in> set sps. test_status (spec_result ?m (fst p) (snd p)) =
          (if spec_ok (snd p) then Passed else Failed)"
    by (simp add: spec_result_status)
  have mapped: "\<forall>p \<in> set sps. \<forall>sc \<in> set scs.
        distinct (map script_id scs) \<longrightarrow>
        basename (or_else (suite_file (fst p)) []) = safeFileName sc \<longrightarrow>
          test_id (spec_result ?m (fst p) (snd p)) = script_id sc \<and>
          test_name (spec_result ?m (fst p) (snd p)) =
            or_else (Some (script_name sc)) (or_else (spec_title (snd p)) (safeFileName sc))"
  proof (intro ballI impI)
    fix p :: "pw_suite \<times> pw_spec" and sc
    assume "sc \<in> set scs" "distinct (map script_id scs)"
      and b: "basename (or_else (suite_file (fst p)) []) = safeFileName sc"
    then have "?m (safeFileName sc) = Some sc" by (simp add: scriptMap_of_lookup)
    with b show "test_id (spec_result ?m (fst p) (snd p)) = script_id sc \<and>
          test_name (spec_result ?m (fst p) (snd p)) =
            or_else (Some (script_name sc)) (or_else (spec_title (snd p)) (safeFileName sc))"
      by (simp add: spec_result_def Let_def)
  qed
  have three: "length scs = 3 \<and> oks sps = 2 \<and> not_oks sps = 1 \<longrightarrow> counts_of r = (2, 1, 0, 3)"
    using pa fa tot sk len by (auto simp: counts_of_def)
  from t st mapped pa fa tot sk three show ?thesis by blast
qed

theorem report_classification_witness:
  "snd (runTestsLocally (demo_response [demo_script 1, demo_script 2, demo_script 3])
          demo_inputs
          (demo_local_env\<lparr>playwright_test_out := Inr 1,
             results_json := Parsed (demo_report [(''test-1.spec.js'', [True]),
               (''test-2.spec.js'', [True]), (''/work/tests/test-3.spec.js'', [False])])\<rparr>)
          initial_state) =
     Inr (demo_result_of [demo_script 1, demo_script 2, demo_script 3] 1
            (Parsed (demo_report [(''test-1.spec.js'', [True]),
               (''test-2.spec.js'', [True]), (''/work/tests/test-3.spec.js'', [False])]))) \<and>
   counts_of (demo_result_of [demo_script 1, demo_script 2, demo_script 3] 1
            (Parsed (demo_report [(''test-1.spec.js'', [True]),
               (''test-2.spec.js'', [True]), (''/work/tests/test-3.spec.js'', [False])]))) =
     (2, 1, 0, 3) \<and>
   test_id (spec_result (scriptMap_of [demo_script 1, demo_script 2, demo_script 3])
              (demo_suite ''/work/tests/test-3.spec.js'' [False]) (demo_spec False)) = 3 \<and>
   test_status (spec_result (scriptMap_of [demo_script 1, demo_script 2, demo_script 3])
              (demo_suite ''/work/tests/test-3.spec.js'' [False]) (demo_spec False)) = Failed"
proof -
  let ?scs = "[demo_script 1, demo_script 2, demo_script 3]"
  let ?raw = "demo_report [(''test-1.spec.js'', [True]),
               (''test-2.spec.js'', [True]), (''/work/tests/test-3.spec.js'', [False])]"
  let ?env = "demo_local_env\<lparr>playwright_test_out := Inr 1, results_json := Parsed ?raw\<rparr>"
  let ?r = "demo_result_of ?scs 1 (Parsed ?raw)"
  let ?p3 = "(demo_suite ''/work/tests/test-3.spec.js'' [False], demo_spec False)"
  let ?sps = "[(demo_suite ''test-1.spec.js'' [True], demo_spec True),
               (demo_suite ''test-2.spec.js'' [True], demo_spec True), ?p3]"
  have a: "snd (runTestsLocally (demo_response ?scs) demo_inputs ?env initial_state) = Inr ?r"
    by (rule demo_local_run)
  have scs: "scripts (demo_response ?scs) = Some ?scs" by (simp add: demo_response_def)
  have rf: "results_json ?env = Parsed ?raw" by simp
  have sps: "report_specs ?raw = ?sps"
    by (simp add: report_specs_def demo_report_def demo_suite_def)
  have ne: "?sps \<noteq> []" by simp
  have n: "length ?scs = 3 \<and> oks ?sps = 2 \<and> not_oks ?sps = 1"
    by (simp add: oks_def not_oks_def demo_spec_def)
  have d: "distinct (map script_id ?scs)" by (simp add: demo_script_def)
  have b: "basename (or_else (suite_file (fst ?p3)) []) = safeFileName (demo_script 3)"
    by code_simp
  note t = report_classification [OF snd_run [OF a] scs rf sps ne]
  from t n have c: "counts_of ?r = (2, 1, 0, 3)" by blast
  from t have "\<forall>p \<in> set ?sps. \<forall>sc \<in> set ?scs.
        distinct (map script_id ?scs) \<longrightarrow>
        basename (or_else (suite_file (fst p)) []) = safeFileName sc \<longrightarrow>
          test_id (spec_result (scriptMap_of ?scs) (fst p) (snd p)) = script_id sc \<and>
          test_name (spec_result (scriptMap_of ?scs) (fst p) (snd p)) =
            or_else (Some (script_name sc)) (or_else (spec_title (snd p)) (safeFileName sc))"
    by blast
  then have "distinct (map script_id ?scs) \<longrightarrow>
        basename (or_else (suite_file (fst ?p3)) []) = safeFileName (demo_script 3) \<longrightarrow>
          test_id (spec_result (scriptMap_of ?scs) (fst ?p3) (snd ?p3)) = script_id (demo_script 3)"
    by simp
  with d b have i: "test_id (spec_result (scriptMap_of ?scs) (fst ?p3) (snd ?p3)) = 3"
    by (simp add: demo_script_def)
  from t have "\<forall>p \<in> set ?sps.
        test_status (spec_result (scriptMap_of ?scs) (fst p) (snd p)) =
          (if spec_ok (snd p) then Passed else Failed)"
    by blast
  then have f: "test_status (spec_result (scriptMap_of ?scs) (fst ?p3) (snd ?p3)) = Failed"
    by (simp add: demo_spec_def)
  from a c i f show ?thesis by simp
qed

text \<open>
  Claim C6 as stated fails: the total is not read from the report. Three specs, two of
  them \<^verbatim>\<open>ok\<close>, in the file of a single script give a total of 1.
\<close>

theorem three_specs_one_script:
  "map_sum error_text counts_of
     (snd (runTestsLocally (demo_response [demo_script 1]) demo_inputs
             (demo_local_env\<lparr>playwright_test_out := Inr 1,
                results_json := Parsed (demo_report [(''test-1.spec.js'', [True, True, False])])\<rparr>)
             initial_state)) = Inr (2, 1, 0, 1)"
proof -
  have "counts_of (demo_result_of [demo_script 1] 1
          (Parsed (demo_report [(''test-1.spec.js'', [True, True, False])]))) = (2, 1, 0, 1)"
    by code_simp
  then show ?thesis by (simp add: demo_local_run)
qed

section \<open>Events of a local run\<close>

lemma steadyI:
  "(\<And>s. \<exists>tr. fst (m s) = s\<lparr>trace := trace s @ tr\<rparr> \<and> list_all P tr) \<Longrightarrow> steady P m"
  by (simp add: steady_def)

lemma steadyD:
  "steady P m \<Longrightarrow> \<exists>tr. fst (m s) = s\<lparr>trace := trace s @ tr\<rparr> \<and> list_all P tr"
  by (simp add: steady_def)

lemma steady_ret: "steady P (ret x)"
  by (rule steadyI, rule exI [of _ "[]"]) (simp add: ret_run)



lemma steady_call: "P ev \<Longrightarrow> steady P (call ev outcome)"
  by (rule steadyI, rule exI [of _ "[ev]"]) (simp add: call_run)

lemma steady_exec: "P (Exec cmd args) \<Longrightarrow> steady P (exec cmd args ig outcome)"
  by (simp add: exec_def steady_call)


lemma steady_bind:
  assumes m: "steady P m" and f: "\<And>x. steady P (f x)"
  shows "steady P (bind m f)"
proof (rule steadyI)
  fix s
  obtain s1 r where ms: "m s = (s1, r)" by (cases "m s")
  from steadyD [OF m, of s] ms obtain tr1 where
    s1: "s1 = s\<lparr>trace := trace s @ tr1\<rparr>" and p1: "list_all P tr1" by auto
  show "\<exists>tr. fst (bind m f s) = s\<lparr>trace := trace s @ tr\<rparr> \<and> list_all P tr"
  proof (cases r)
    case (Inl e)
    with ms s1 p1 show ?thesis by (auto simp: bind_def)
  next
    case (Inr x)
    from steadyD [OF f, of x s1] obtain tr2 where
      s2: "fst (f x s1) = s1\<lparr>trace := trace s1 @ tr2\<rparr>" and p2: "list_all P tr2" by auto
    have "fst (bind m f s) = s\<lparr>trace := trace s @ (tr1 @ tr2)\<rparr>"
      using ms Inr s1 s2 by (simp add: bind_def)
    with p1 p2 show ?thesis by (intro exI [of _ "tr1 @ tr2"]) simp
  qed
qed



lemma steady_write_scripts: "steady local_event (write_scripts env d scs)"
  by (induction scs)
     (simp_all add: steady_ret steady_bind writeFileSync_def steady_call local_event_def quiet_event_def)

lemma steady_provision: "steady local_event (provision_sandbox scs inputs env)"
  unfolding provision_sandbox_def writeFileSync_def
  by (intro steady_bind steady_call steady_exec steady_ret steady_write_scripts)
     (simp_all add: local_event_def quiet_event_def)


lemma removals_append: "removals (a @ b) = removals a @ removals b"
  by (simp add: removals_def List.map_filter_def)

lemma reports_append: "reports (a @ b) = reports a @ reports b"
  by (simp add: reports_def List.map_filter_def)



lemma local_events_silent:
  "list_all local_event tr \<Longrightarrow>
     removals tr = [] \<and> reports tr = [] \<and> cancels tr = [] \<and> failures tr = []"
  by (induction tr)
     (simp_all add: removals_def reports_def cancels_def failures_def List.map_filter_def
        local_event_def quiet_event_def)

lemma write_scripts_rm: "write_scripts (env\<lparr>rmSync_out := x\<rparr>) d scs = write_scripts env d scs"
  by (induction scs) (simp_all add: writeFileSync_def)

lemma provision_rm:
  "provision_sandbox scs inputs (env\<lparr>rmSync_out := x\<rparr>) = provision_sandbox scs inputs env"
  by (simp add: provision_sandbox_def writeFileSync_def write_scripts_rm)

lemma execute_and_report_rm:
  "execute_and_report eid scs inputs (env\<lparr>rmSync_out := x\<rparr>) =
   execute_and_report eid scs inputs env"
  by (rule ext, rule ext) (simp add: execute_and_report_run)

text \<open>
  Claim C3, as amended. Once the sandbox is provisioned (the directory is made, the files
  are written and both installations have succeeded), every local run removes the
  directory exactly once: after the test process, whatever its exit code and even when
  starting it throws, and before the results are reported. Whether the removal itself
  throws makes no difference to the run.
\<close>

theorem sandbox_removed:
  assumes p: "provision_sandbox (case scripts resp of None \<Rightarrow> [] | Some l \<Rightarrow> l) inputs env s =
                (s1, Inr tmpDir)"
  shows "removals (trace (fst (runTestsLocally resp inputs env s))) =
           removals (trace s) @ [tmpDir] \<and>
         (\<exists>ev. trace (fst (runTestsLocally resp inputs env s)) =
            trace s1 @ [Exec ''npx'' [''playwright'', ''test'', ''--config=playwright.config.js''],
                        RmSync tmpDir, ev] \<and> report_of ev \<noteq> None) \<and>
         runTestsLocally resp inputs (env\<lparr>rmSync_out := x\<rparr>) s =
           runTestsLocally resp inputs env s"
proof (intro conjI)
  let ?scs = "case scripts resp of None \<Rightarrow> [] | Some l \<Rightarrow> l"
  let ?test = "Exec ''npx'' [''playwright'', ''test'', ''--config=playwright.config.js'']"
  from steadyD [OF steady_provision, of ?scs inputs env s] p obtain tr where
    s1: "s1 = s\<lparr>trace := trace s @ tr\<rparr>" and tr: "list_all local_event tr" by auto
  have run: "runTestsLocally resp inputs env s =
      execute_and_report (resp_execution_id resp) ?scs inputs env tmpDir s1"
    using p by (simp add: runTestsLocally_def Let_def bind_def)
  show "\<exists>ev. trace (fst (runTestsLocally resp inputs env s)) = trace s1 @ [?test, RmSync tmpDir, ev] \<and>
      report_of ev \<noteq> None"
    by (simp add: run execute_and_report_run Let_def)
  have "removals (trace s1) = removals (trace s)"
    using local_events_silent [OF tr] by (simp add: s1 removals_append)
  then show "removals (trace (fst (runTestsLocally resp inputs env s))) = removals (trace s) @ [tmpDir]"
    by (simp add: run execute_and_report_run Let_def removals_append)
       (simp add: removals_def List.map_filter_def)
  show "runTestsLocally resp inputs (env\<lparr>rmSync_out := x\<rparr>) s = runTestsLocally resp inputs env s"
    by (simp add: runTestsLocally_def Let_def provision_rm execute_and_report_rm)
qed

text \<open>
  A run in which the test process cannot be started and the removal fails.
\<close>

theorem sandbox_removed_witness:
  "removals (trace (fst (runTestsLocally (demo_response [demo_script 1]) demo_inputs
      (demo_local_env\<lparr>playwright_test_out := Inl (JsError ''spawn npx ENOENT''),
         rmSync_out := Inl (JsError ''EBUSY'')\<rparr>) initial_state))) = [''/tmp/qamax-a1''] \<and>
   runTestsLocally (demo_response [demo_script 1]) demo_inputs
      (demo_local_env\<lparr>playwright_test_out := Inl (JsError ''spawn npx ENOENT''),
         rmSync_out := Inl (JsError ''EBUSY'')\<rparr>) initial_state =
   runTestsLocally (demo_response [demo_script 1]) demo_inputs
      (demo_local_env\<lparr>playwright_test_out := Inl (JsError ''spawn npx ENOENT'')\<rparr>)
      initial_state"
proof -
  let ?quiet = "demo_local_env\<lparr>playwright_test_out := Inl (JsError ''spawn npx ENOENT'')\<rparr>"
  let ?env = "demo_local_env\<lparr>playwright_test_out := Inl (JsError ''spawn npx ENOENT''),
         rmSync_out := Inl (JsError ''EBUSY'')\<rparr>"
  let ?resp = "demo_response [demo_script 1]"
  have p: "provision_sandbox (case scripts ?resp of None \<Rightarrow> [] | Some l \<Rightarrow> l) demo_inputs ?env
             initial_state =
           (initial_state\<lparr>trace := trace initial_state @
               provision_events (case scripts ?resp of None \<Rightarrow> [] | Some l \<Rightarrow> l) demo_inputs
                 ''/tmp/qamax-a1''\<rparr>, Inr ''/tmp/qamax-a1'')"
    by (rule provision_ok) (simp_all add: demo_local_env_def)
  have p0: "provision_sandbox (case scripts ?resp of None \<Rightarrow> [] | Some l \<Rightarrow> l) demo_inputs ?quiet
             initial_state =
           (initial_state\<lparr>trace := trace initial_state @
               provision_events (case scripts ?resp of None \<Rightarrow> [] | Some l \<Rightarrow> l) demo_inputs
                 ''/tmp/qamax-a1''\<rparr>, Inr ''/tmp/qamax-a1'')"
    by (rule provision_ok) (simp_all add: demo_local_env_def)
  from sandbox_removed [OF p, of "Inl (JsError ''EBUSY'')"]
  have "removals (trace (fst (runTestsLocally ?resp demo_inputs ?env initial_state))) =
          [''/tmp/qamax-a1'']"
    by (simp add: initial_state_def removals_def)
  moreover from sandbox_removed [OF p0, of "Inl (JsError ''EBUSY'')"]
  have "runTestsLocally ?resp demo_inputs ?env initial_state =
        runTestsLocally ?resp demo_inputs ?quiet initial_state"
    by blast
  ultimately show ?thesis by blast
qed

text \<open>
  Claim C3 as stated fails: nothing before line 242 is inside a \<^verbatim>\<open>try\<close>. When the
  browser installation throws, \<^verbatim>\<open>runTestsLocally\<close> ends with that error; the directory
  has been made and no removal is attempted.
\<close>

theorem sandbox_left_behind:
  "snd (runTestsLocally (demo_response [demo_script 1]) demo_inputs
          (demo_local_env\<lparr>browser_install_out := Inl (JsError ''browser download failed'')\<rparr>)
          initial_state) = Inl (JsError ''browser download failed'') \<and>
   take 2 (trace (fst (runTestsLocally (demo_response [demo_script 1]) demo_inputs
          (demo_local_env\<lparr>browser_install_out := Inl (JsError ''browser download failed'')\<rparr>)
          initial_state))) = [Mkdtemp, Mkdir ''/tmp/qamax-a1/tests''] \<and>
   removals (trace (fst (runTestsLocally (demo_response [demo_script 1]) demo_inputs
          (demo_local_env\<lparr>browser_install_out := Inl (JsError ''browser download failed'')\<rparr>)
          initial_state))) = []"
  by (simp add: runTestsLocally_def provision_sandbox_def bind_def call_run exec_def
        writeFileSync_def write_scripts_ok demo_local_env_def demo_response_def
        initial_state_def removals_def List.map_filter_def path_join_def)

lemma local_run_reports_once:
  assumes run: "runTestsLocally resp inputs env s = (s2, Inr r)"
  shows "reports (trace s2) =
           reports (trace s) @
           [(resp_execution_id resp, result r, passed_tests r, failed_tests r, total_tests r)]"
proof -
  let ?scs = "case scripts resp of None \<Rightarrow> [] | Some l \<Rightarrow> l"
  from run obtain s1 d where p: "provision_sandbox ?scs inputs env s = (s1, Inr d)"
    and e: "execute_and_report (resp_execution_id resp) ?scs inputs env d s1 = (s2, Inr r)"
    by (auto simp: runTestsLocally_def Let_def bind_Inr)
  from steadyD [OF steady_provision, of ?scs inputs env s] p obtain tr where
    s1: "s1 = s\<lparr>trace := trace s @ tr\<rparr>" and tr: "list_all local_event tr" by auto
  have quiet: "reports (trace s1) = reports (trace s)"
    using local_events_silent [OF tr] by (simp add: s1 reports_append)
  from e have r: "r = local_results (resp_execution_id resp) (browser inputs) ?scs
               (exit_code_of (playwright_test_out env))
               (startTime env) (endTime env) (completedTime env) (results_json env)"
    and s2: "s2 = s1\<lparr>trace := trace s1 @
             [Exec ''npx'' [''playwright'', ''test'', ''--config=playwright.config.js''],
              RmSync d,
              ReportResults (resp_execution_id resp) (result r) (passed_tests r)
                (failed_tests r) (total_tests r)]\<rparr>"
    by (auto simp: execute_and_report_run Let_def split: sum.splits)
  show ?thesis
    by (subst s2) (simp add: reports_append quiet, simp add: reports_def List.map_filter_def)
qed

lemma repo_run_reports_nothing:
  "reports (trace (fst (repo_tests env inputs eid files s))) = reports (trace s)"
  by (simp add: repo_tests_run reports_append) (simp add: reports_def List.map_filter_def)

text \<open>
  Claim C5 fails on the code. A run of repository test files (lines 509 to 537) is a
  local run, and it never calls \<^verbatim>\<open>reportResults\<close>: with one test file and exit code 0
  the action completes without a failure message and without a report to the service.
  The run of embedded scripts does report exactly once when it returns
  (\<open>local_run_reports_once\<close>).
\<close>

theorem repository_run_not_reported:
  "snd (run (demo_run_env (demo_repo_response [''a.spec.ts''])) initial_state) = Inr () \<and>
   reports (trace (fst (run (demo_run_env (demo_repo_response [''a.spec.ts''])) initial_state))) = [] \<and>
   failures (trace (fst (run (demo_run_env (demo_repo_response [''a.spec.ts''])) initial_state))) = []"
  by code_simp










lemma write_scripts_returns:
  "write_scripts env d scs s = (s1, Inr u) \<Longrightarrow>
     s1 = s\<lparr>trace := trace s @
          map (\<lambda>sc. WriteFile (path_join d (safeFileName sc)) (strip_types (script_code sc))) scs\<rparr>"
proof (induction scs arbitrary: s)
  case Nil
  then show ?case by (simp add: ret_run)
next
  case (Cons sc rest)
  from Cons.prems obtain s0 where
    a: "writeFileSync env (path_join d (safeFileName sc)) (strip_types (script_code sc)) s = (s0, Inr ())"
    and b: "write_scripts env d rest s0 = (s1, Inr u)"
    by (auto simp: bind_Inr)
  from a have "s0 = s\<lparr>trace := trace s @
      [WriteFile (path_join d (safeFileName sc)) (strip_types (script_code sc))]\<rparr>"
    by (simp add: writeFileSync_def call_run)
  with Cons.IH [OF b] show ?case by simp
qed

lemma provision_returns:
  assumes "provision_sandbox scs inputs env s = (s1, Inr d)"
  shows "mkdtemp_out env = Inr d \<and> mkdir_out env = Inr () \<and>
         s1 = s\<lparr>trace := trace s @ provision_events scs inputs d\<rparr>"
  using assms
  by (auto simp: provision_sandbox_def bind_Inr call_run writeFileSync_def exec_def ret_run
        provision_events_def dest!: write_scripts_returns)

lemma local_run_events:
  assumes "runTestsLocally resp inputs env s = (s2, Inr r)"
  shows "\<exists>d. mkdtemp_out env = Inr d \<and> mkdir_out env = Inr () \<and>
     trace s2 = trace s @
       provision_events (case scripts resp of None \<Rightarrow> [] | Some l \<Rightarrow> l) inputs d @
       [Exec ''npx'' [''playwright'', ''test'', ''--config=playwright.config.js''],
        RmSync d,
        ReportResults (resp_execution_id resp) (result r) (passed_tests r) (failed_tests r)
          (total_tests r)]"
proof -
  let ?scs = "case scripts resp of None \<Rightarrow> [] | Some l \<Rightarrow> l"
  from assms obtain s1 d where p: "provision_sandbox ?scs inputs env s = (s1, Inr d)"
    and e: "execute_and_report (resp_execution_id resp) ?scs inputs env d s1 = (s2, Inr r)"
    by (auto simp: runTestsLocally_def Let_def bind_Inr)
  from e have "trace s2 = trace s1 @
       [Exec ''npx'' [''playwright'', ''test'', ''--config=playwright.config.js''],
        RmSync d,
        ReportResults (resp_execution_id resp) (result r) (passed_tests r) (failed_tests r)
          (total_tests r)]"
    by (auto simp: execute_and_report_run Let_def split: sum.splits)
  with provision_returns [OF p] show ?thesis by auto
qed







section \<open>The exit signal\<close>



section \<open>Cancellation on error\<close>










































text \<open>
  A trigger response whose execution id is the empty string is treated as no id at all.
\<close>

lemma empty_execution_id_not_cancelled:
  "cancels (trace (fst (run (demo_run_env (demo_remote_response\<lparr>resp_execution_id := []\<rparr>))
      initial_state))) = []"
  by code_simp

end
